theory Spec2Isabelle
  imports Main "HOL-Library.Word"
begin

section \<open>The wrapped kernel, seen from the binding layer\<close>

text \<open>
  FreeRTOS-Cpp is a header-only C++ layer over the C interface of the FreeRTOS kernel.
  The kernel is an external dependency: the headers under \<^verbatim>\<open>include/FreeRTOS\<close> only call it.
  The embedding therefore keeps the kernel abstract. A kernel is any function that, given a
  call (the name of the C function or macro and its actual arguments) and its own state,
  answers with a response and a new state. Every wrapper method is a state-passing function
  over a world that holds the kernel state and the log of the calls made so far, each with the
  response the kernel gave.
\<close>

text \<open>
  Modelled from the spec: the kernel's port header, which fixes the scalar types, is not part
  of the repository (the spec has the kernel as an external dependency reached only through
  its C interface). Scalars are the machine words of a 32-bit port with
  \<^verbatim>\<open>configUSE_16_BIT_TICKS == 0\<close>: \<^verbatim>\<open>BaseType_t\<close>, \<^verbatim>\<open>UBaseType_t\<close>, \<^verbatim>\<open>TickType_t\<close>, \<^verbatim>\<open>size_t\<close>,
  \<^verbatim>\<open>uint32_t\<close> and the handle types (opaque pointers) are all 32 bits wide. The wrappers only
  compare \<^verbatim>\<open>BaseType_t\<close> values for equality, so the bit pattern is kept and no signed
  reading is needed.
\<close>

type_synonym BaseType_t = "32 word"
type_synonym UBaseType_t = "32 word"
type_synonym TickType_t = "32 word"
type_synonym size_t = "32 word"
type_synonym uint32_t = "32 word"
type_synonym handle_t = "32 word"

text \<open>
  Modelled from the spec: the kernel's \<^verbatim>\<open>projdefs.h\<close> is not part of the repository. The
  spec has the wrappers convert the kernel's \<^verbatim>\<open>pdTRUE\<close> and \<^verbatim>\<open>pdFALSE\<close> to \<^verbatim>\<open>bool\<close>; they are
  the kernel's truth values 1 and 0, and \<^verbatim>\<open>pdPASS\<close> is its other name for \<^verbatim>\<open>pdTRUE\<close>. \<^verbatim>\<open>NULL\<close>
  is the null pointer.
\<close>

definition pdFALSE :: BaseType_t where "pdFALSE = 0"
definition pdTRUE :: BaseType_t where "pdTRUE = 1"
definition pdPASS :: BaseType_t where "pdPASS = pdTRUE"
definition NULL :: handle_t where "NULL = 0"

text \<open>
  An actual argument of a kernel call. \<open>V\<close> is a scalar passed by value (a handle, a tick
  count, a size, \<^verbatim>\<open>NULL\<close>, a pointer the caller supplied). \<open>Addr n c\<close> is the address of the
  scalar variable or data member named \<open>n\<close> whose content at the call is \<open>c\<close> (\<open>None\<close>: not
  initialised). \<open>AddrBuffer\<close> is the address of the local \<^verbatim>\<open>T buffer\<close> of a queue read,
  \<open>AddrItem x\<close> the address of the item \<open>x\<close> of a queue write. \<open>Member a n\<close> is the address of
  the data member \<open>n\<close> of the object at address \<open>a\<close>, \<open>This a\<close> that object's own address.
  \<open>Name s\<close> is a C string and \<open>Fn f\<close> a pointer to the function \<open>f\<close>.
\<close>

datatype 'a arg =
    V "32 word"
  | Addr string "32 word option"
  | AddrBuffer
  | AddrItem 'a
  | Member "32 word" string
  | This "32 word"
  | Name string
  | Fn string

datatype 'a kcall = KCall string "'a arg list"

text \<open>
  What the kernel answers: the returned word, and what it stored through the pointers it was
  given (\<open>None\<close>: nothing stored). \<open>woken_out\<close> is the store through
  \<^verbatim>\<open>pxHigherPriorityTaskWoken\<close>, \<open>value_out\<close> the store through the other scalar pointer of the
  call (a notification value, the created task's handle, the previous wake time) and
  \<open>item_out\<close> the item copied into a queue read's buffer.
\<close>

record 'a kresp =
  ret :: "32 word"
  woken_out :: "32 word option"
  value_out :: "32 word option"
  item_out :: "'a option"

type_synonym ('s, 'a) kernel = "'a kcall \<Rightarrow> 's \<Rightarrow> 'a kresp \<times> 's"

record ('s, 'a) world =
  kstate :: 's
  trace :: "('a kcall \<times> 'a kresp) list"

definition call :: "('s, 'a) kernel \<Rightarrow> 'a kcall \<Rightarrow> ('s, 'a) world \<Rightarrow> 'a kresp \<times> ('s, 'a) world" where
  "call K c w =
     (let (r, s') = K c (kstate w)
      in (r, \<lparr>kstate = s', trace = trace w @ [(c, r)]\<rparr>))"

text \<open>The content of a variable after a call: what the kernel stored, else what it held.\<close>

definition stored :: "'v \<Rightarrow> 'v option \<Rightarrow> 'v" where
  "stored held written = (case written of None \<Rightarrow> held | Some v \<Rightarrow> v)"

text \<open>
  The plain forwarding call the specification speaks of: one call \<open>c\<close>, the result a function
  of the kernel's response alone. \<open>resp\<close> is the response the kernel gives to \<open>c\<close> in world
  \<open>w\<close>, \<open>after\<close> the world that call leaves.
\<close>

definition resp :: "('s, 'a) kernel \<Rightarrow> 'a kcall \<Rightarrow> ('s, 'a) world \<Rightarrow> 'a kresp" where
  "resp K c w = fst (K c (kstate w))"

definition after :: "('s, 'a) kernel \<Rightarrow> 'a kcall \<Rightarrow> ('s, 'a) world \<Rightarrow> ('s, 'a) world" where
  "after K c w = \<lparr>kstate = snd (K c (kstate w)), trace = trace w @ [(c, resp K c w)]\<rparr>"

definition forward ::
  "('s, 'a) kernel \<Rightarrow> 'a kcall \<Rightarrow> ('a kresp \<Rightarrow> 'r) \<Rightarrow> ('s, 'a) world \<Rightarrow> 'r \<times> ('s, 'a) world" where
  "forward K c f w = (f (resp K c w), after K c w)"

text \<open>The kernel calls a method made: the log entries it appended.\<close>

definition calls :: "('s, 'a) world \<Rightarrow> ('s, 'a) world \<Rightarrow> ('a kcall \<times> 'a kresp) list" where
  "calls w w' = drop (length (trace w)) (trace w')"

type_synonym ('s, 'a, 'r) action = "('s, 'a) world \<Rightarrow> 'r \<times> ('s, 'a) world"

text \<open>
  \<^verbatim>\<open>std::bitset<N>::to_ulong\<close> widens a bit set to an \<^verbatim>\<open>unsigned long\<close>; constructing a
  \<^verbatim>\<open>std::bitset<N>\<close> from an integer keeps its low \<open>N\<close> bits. \<^verbatim>\<open>EventBits\<close> is
  \<^verbatim>\<open>std::bitset<24>\<close> when ticks are 32 bits wide and \<^verbatim>\<open>NotificationBits\<close> is
  \<^verbatim>\<open>std::bitset<32>\<close>.
\<close>

type_synonym EventBits_t = "24 word"
type_synonym NotificationBits_t = "32 word"

definition to_ulong :: "'n::len word \<Rightarrow> 32 word" where
  "to_ulong bits = ucast bits"

definition EventBits :: "32 word \<Rightarrow> EventBits_t" where
  "EventBits val = ucast val"

definition NotificationBits :: "32 word \<Rightarrow> NotificationBits_t" where
  "NotificationBits val = ucast val"

named_theorems method_defs \<open>the definitions of the wrapper methods\<close>

section \<open>Mutex.hpp\<close>

text \<open>
  \<^verbatim>\<open>MutexBase\<close>, \<^verbatim>\<open>SemaphoreBase\<close>, \<^verbatim>\<open>QueueBase<T>\<close>, \<^verbatim>\<open>EventGroupBase\<close>, \<^verbatim>\<open>StreamBufferBase\<close> and
  \<^verbatim>\<open>MessageBufferBase\<close> each have one data member, \<^verbatim>\<open>handle\<close>, initialised to \<^verbatim>\<open>NULL\<close> by its
  default member initialiser. \<^verbatim>\<open>TaskBase\<close> and \<^verbatim>\<open>TimerBase\<close> extend that layout below.
  A method that takes \<^verbatim>\<open>bool& higherPriorityTaskWoken\<close> takes the flag's value and returns
  its new value beside the result. The overload that passes \<^verbatim>\<open>NULL\<close> instead carries the
  suffix \<open>_NULL\<close>. All optional kernel functions are taken as configured in
  (\<^verbatim>\<open>INCLUDE_...  == 1\<close>), as are both allocation schemes.
\<close>

record Wrapper =
  handle :: handle_t

type_synonym MutexBase = Wrapper

definition MutexBase_ctor :: MutexBase where
  MutexBase_ctor_def [method_defs]: "MutexBase_ctor = \<lparr>handle = NULL\<rparr>"


definition MutexBase_lock :: "('s, 'a) kernel \<Rightarrow> MutexBase \<Rightarrow> TickType_t \<Rightarrow> ('s, 'a, bool) action" where
  MutexBase_lock_def [method_defs]: "MutexBase_lock K this ticksToWait w =
     (let (r, w') = call K (KCall ''xSemaphoreTake'' [V (handle this), V ticksToWait]) w
      in (ret r = pdTRUE, w'))"

definition MutexBase_lockFromISR :: "('s, 'a) kernel \<Rightarrow> MutexBase \<Rightarrow> bool \<Rightarrow> ('s, 'a, bool \<times> bool) action" where
  MutexBase_lockFromISR_def [method_defs]: "MutexBase_lockFromISR K this higherPriorityTaskWoken w =
     (let taskWoken = pdFALSE;
          (r, w') = call K (KCall ''xSemaphoreTakeFromISR''
                              [V (handle this), Addr ''taskWoken'' (Some taskWoken)]) w;
          taskWoken = stored taskWoken (woken_out r);
          result = (ret r = pdTRUE)
      in ((result, if taskWoken = pdTRUE then True else higherPriorityTaskWoken), w'))"

definition MutexBase_lockFromISR_NULL :: "('s, 'a) kernel \<Rightarrow> MutexBase \<Rightarrow> ('s, 'a, bool) action" where
  MutexBase_lockFromISR_NULL_def [method_defs]: "MutexBase_lockFromISR_NULL K this w =
     (let (r, w') = call K (KCall ''xSemaphoreTakeFromISR'' [V (handle this), V NULL]) w
      in (ret r = pdTRUE, w'))"

definition MutexBase_unlock :: "('s, 'a) kernel \<Rightarrow> MutexBase \<Rightarrow> ('s, 'a, bool) action" where
  MutexBase_unlock_def [method_defs]: "MutexBase_unlock K this w =
     (let (r, w') = call K (KCall ''xSemaphoreGive'' [V (handle this)]) w
      in (ret r = pdTRUE, w'))"

definition MutexBase_dtor :: "('s, 'a) kernel \<Rightarrow> MutexBase \<Rightarrow> ('s, 'a, unit) action" where
  MutexBase_dtor_def [method_defs]: "MutexBase_dtor K this w =
     (let (r, w') = call K (KCall ''vSemaphoreDelete'' [V (handle this)]) w
      in ((), w'))"

text \<open>\<^verbatim>\<open>RecursiveMutexBase\<close> derives from \<^verbatim>\<open>MutexBase\<close> and hides \<^verbatim>\<open>lock\<close> and \<^verbatim>\<open>unlock\<close>.\<close>

type_synonym RecursiveMutexBase = MutexBase

definition RecursiveMutexBase_lock :: "('s, 'a) kernel \<Rightarrow> RecursiveMutexBase \<Rightarrow> TickType_t \<Rightarrow> ('s, 'a, bool) action" where
  RecursiveMutexBase_lock_def [method_defs]: "RecursiveMutexBase_lock K this ticksToWait w =
     (let (r, w') = call K (KCall ''xSemaphoreTakeRecursive'' [V (handle this), V ticksToWait]) w
      in (ret r = pdTRUE, w'))"

definition RecursiveMutexBase_unlock :: "('s, 'a) kernel \<Rightarrow> RecursiveMutexBase \<Rightarrow> ('s, 'a, bool) action" where
  RecursiveMutexBase_unlock_def [method_defs]: "RecursiveMutexBase_unlock K this w =
     (let (r, w') = call K (KCall ''xSemaphoreGiveRecursive'' [V (handle this)]) w
      in (ret r = pdTRUE, w'))"

text \<open>
  The concrete classes. A constructor first runs the base class's default constructor and
  then assigns the handle the create function returns. The statically allocated variants
  take the address of the object under construction, whose data members they hand to the
  kernel. Their destructors are defaulted, so destroying any of them runs \<^verbatim>\<open>~MutexBase\<close>.
\<close>

definition Mutex_ctor :: "('s, 'a) kernel \<Rightarrow> ('s, 'a, MutexBase) action" where
  Mutex_ctor_def [method_defs]: "Mutex_ctor K w =
     (let this = MutexBase_ctor;
          (r, w') = call K (KCall ''xSemaphoreCreateMutex'' []) w
      in (this\<lparr>handle := ret r\<rparr>, w'))"

definition RecursiveMutex_ctor :: "('s, 'a) kernel \<Rightarrow> ('s, 'a, RecursiveMutexBase) action" where
  RecursiveMutex_ctor_def [method_defs]: "RecursiveMutex_ctor K w =
     (let this = MutexBase_ctor;
          (r, w') = call K (KCall ''xSemaphoreCreateRecursiveMutex'' []) w
      in (this\<lparr>handle := ret r\<rparr>, w'))"

definition StaticMutex_ctor :: "('s, 'a) kernel \<Rightarrow> 32 word \<Rightarrow> ('s, 'a, MutexBase) action" where
  StaticMutex_ctor_def [method_defs]: "StaticMutex_ctor K addr w =
     (let this = MutexBase_ctor;
          (r, w') = call K (KCall ''xSemaphoreCreateMutexStatic'' [Member addr ''staticMutex'']) w
      in (this\<lparr>handle := ret r\<rparr>, w'))"

definition StaticRecursiveMutex_ctor :: "('s, 'a) kernel \<Rightarrow> 32 word \<Rightarrow> ('s, 'a, RecursiveMutexBase) action" where
  StaticRecursiveMutex_ctor_def [method_defs]: "StaticRecursiveMutex_ctor K addr w =
     (let this = MutexBase_ctor;
          (r, w') = call K (KCall ''xSemaphoreCreateRecursiveMutexStatic''
                              [Member addr ''staticRecursiveMutex'']) w
      in (this\<lparr>handle := ret r\<rparr>, w'))"

section \<open>EventGroups.hpp\<close>

type_synonym EventGroupBase = Wrapper

definition EventGroupBase_ctor :: EventGroupBase where
  EventGroupBase_ctor_def [method_defs]: "EventGroupBase_ctor = \<lparr>handle = NULL\<rparr>"


definition EventGroupBase_wait ::
  "('s, 'a) kernel \<Rightarrow> EventGroupBase \<Rightarrow> EventBits_t \<Rightarrow> bool \<Rightarrow> bool \<Rightarrow> TickType_t \<Rightarrow> ('s, 'a, EventBits_t) action" where
  EventGroupBase_wait_def [method_defs]: "EventGroupBase_wait K this bitsToWaitFor clearOnExit waitForAllBits ticksToWait w =
     (let (r, w') = call K (KCall ''xEventGroupWaitBits''
                              [V (handle this), V (to_ulong bitsToWaitFor),
                               V (if clearOnExit then pdTRUE else pdFALSE),
                               V (if waitForAllBits then pdTRUE else pdFALSE), V ticksToWait]) w
      in (EventBits (ret r), w'))"

definition EventGroupBase_set :: "('s, 'a) kernel \<Rightarrow> EventGroupBase \<Rightarrow> EventBits_t \<Rightarrow> ('s, 'a, EventBits_t) action" where
  EventGroupBase_set_def [method_defs]: "EventGroupBase_set K this bitsToSet w =
     (let (r, w') = call K (KCall ''xEventGroupSetBits'' [V (handle this), V (to_ulong bitsToSet)]) w
      in (EventBits (ret r), w'))"

definition EventGroupBase_setFromISR ::
  "('s, 'a) kernel \<Rightarrow> EventGroupBase \<Rightarrow> bool \<Rightarrow> EventBits_t \<Rightarrow> ('s, 'a, bool \<times> bool) action" where
  EventGroupBase_setFromISR_def [method_defs]: "EventGroupBase_setFromISR K this higherPriorityTaskWoken bitsToSet w =
     (let taskWoken = pdFALSE;
          (r, w') = call K (KCall ''xEventGroupSetBitsFromISR''
                              [V (handle this), V (to_ulong bitsToSet),
                               Addr ''taskWoken'' (Some taskWoken)]) w;
          taskWoken = stored taskWoken (woken_out r);
          result = (ret r = pdPASS)
      in ((result, if taskWoken = pdTRUE then True else higherPriorityTaskWoken), w'))"

definition EventGroupBase_setFromISR_NULL ::
  "('s, 'a) kernel \<Rightarrow> EventGroupBase \<Rightarrow> EventBits_t \<Rightarrow> ('s, 'a, bool) action" where
  EventGroupBase_setFromISR_NULL_def [method_defs]: "EventGroupBase_setFromISR_NULL K this bitsToSet w =
     (let (r, w') = call K (KCall ''xEventGroupSetBitsFromISR''
                              [V (handle this), V (to_ulong bitsToSet), V NULL]) w
      in (ret r = pdPASS, w'))"

definition EventGroupBase_clear :: "('s, 'a) kernel \<Rightarrow> EventGroupBase \<Rightarrow> EventBits_t \<Rightarrow> ('s, 'a, EventBits_t) action" where
  EventGroupBase_clear_def [method_defs]: "EventGroupBase_clear K this bitsToClear w =
     (let (r, w') = call K (KCall ''xEventGroupClearBits'' [V (handle this), V (to_ulong bitsToClear)]) w
      in (EventBits (ret r), w'))"

definition EventGroupBase_clearFromISR :: "('s, 'a) kernel \<Rightarrow> EventGroupBase \<Rightarrow> EventBits_t \<Rightarrow> ('s, 'a, bool) action" where
  EventGroupBase_clearFromISR_def [method_defs]: "EventGroupBase_clearFromISR K this bitsToClear w =
     (let (r, w') = call K (KCall ''xEventGroupClearBitsFromISR''
                              [V (handle this), V (to_ulong bitsToClear)]) w
      in (ret r = pdPASS, w'))"

definition EventGroupBase_get :: "('s, 'a) kernel \<Rightarrow> EventGroupBase \<Rightarrow> ('s, 'a, EventBits_t) action" where
  EventGroupBase_get_def [method_defs]: "EventGroupBase_get K this w =
     (let (r, w') = call K (KCall ''xEventGroupGetBits'' [V (handle this)]) w
      in (EventBits (ret r), w'))"

definition EventGroupBase_getFromISR :: "('s, 'a) kernel \<Rightarrow> EventGroupBase \<Rightarrow> ('s, 'a, EventBits_t) action" where
  EventGroupBase_getFromISR_def [method_defs]: "EventGroupBase_getFromISR K this w =
     (let (r, w') = call K (KCall ''xEventGroupGetBitsFromISR'' [V (handle this)]) w
      in (EventBits (ret r), w'))"

definition EventGroupBase_sync ::
  "('s, 'a) kernel \<Rightarrow> EventGroupBase \<Rightarrow> EventBits_t \<Rightarrow> EventBits_t \<Rightarrow> TickType_t \<Rightarrow> ('s, 'a, EventBits_t) action" where
  EventGroupBase_sync_def [method_defs]: "EventGroupBase_sync K this bitsToSet bitsToWaitFor ticksToWait w =
     (let (r, w') = call K (KCall ''xEventGroupSync''
                              [V (handle this), V (to_ulong bitsToSet),
                               V (to_ulong bitsToWaitFor), V ticksToWait]) w
      in (EventBits (ret r), w'))"

definition EventGroupBase_dtor :: "('s, 'a) kernel \<Rightarrow> EventGroupBase \<Rightarrow> ('s, 'a, unit) action" where
  EventGroupBase_dtor_def [method_defs]: "EventGroupBase_dtor K this w =
     (let (r, w') = call K (KCall ''vEventGroupDelete'' [V (handle this)]) w
      in ((), w'))"

definition EventGroup_ctor :: "('s, 'a) kernel \<Rightarrow> ('s, 'a, EventGroupBase) action" where
  EventGroup_ctor_def [method_defs]: "EventGroup_ctor K w =
     (let this = EventGroupBase_ctor;
          (r, w') = call K (KCall ''xEventGroupCreate'' []) w
      in (this\<lparr>handle := ret r\<rparr>, w'))"

definition StaticEventGroup_ctor :: "('s, 'a) kernel \<Rightarrow> 32 word \<Rightarrow> ('s, 'a, EventGroupBase) action" where
  StaticEventGroup_ctor_def [method_defs]: "StaticEventGroup_ctor K addr w =
     (let this = EventGroupBase_ctor;
          (r, w') = call K (KCall ''xEventGroupCreateStatic'' [Member addr ''staticEventGroup'']) w
      in (this\<lparr>handle := ret r\<rparr>, w'))"

section \<open>Semaphore.hpp\<close>

type_synonym SemaphoreBase = Wrapper

definition SemaphoreBase_ctor :: SemaphoreBase where
  SemaphoreBase_ctor_def [method_defs]: "SemaphoreBase_ctor = \<lparr>handle = NULL\<rparr>"


definition SemaphoreBase_getCount :: "('s, 'a) kernel \<Rightarrow> SemaphoreBase \<Rightarrow> ('s, 'a, UBaseType_t) action" where
  SemaphoreBase_getCount_def [method_defs]: "SemaphoreBase_getCount K this w =
     (let (r, w') = call K (KCall ''uxSemaphoreGetCount'' [V (handle this)]) w
      in (ret r, w'))"

definition SemaphoreBase_take :: "('s, 'a) kernel \<Rightarrow> SemaphoreBase \<Rightarrow> TickType_t \<Rightarrow> ('s, 'a, bool) action" where
  SemaphoreBase_take_def [method_defs]: "SemaphoreBase_take K this ticksToWait w =
     (let (r, w') = call K (KCall ''xSemaphoreTake'' [V (handle this), V ticksToWait]) w
      in (ret r = pdTRUE, w'))"

definition SemaphoreBase_takeFromISR :: "('s, 'a) kernel \<Rightarrow> SemaphoreBase \<Rightarrow> bool \<Rightarrow> ('s, 'a, bool \<times> bool) action" where
  SemaphoreBase_takeFromISR_def [method_defs]: "SemaphoreBase_takeFromISR K this higherPriorityTaskWoken w =
     (let taskWoken = pdFALSE;
          (r, w') = call K (KCall ''xSemaphoreTakeFromISR''
                              [V (handle this), Addr ''taskWoken'' (Some taskWoken)]) w;
          taskWoken = stored taskWoken (woken_out r);
          result = (ret r = pdTRUE)
      in ((result, if taskWoken = pdTRUE then True else higherPriorityTaskWoken), w'))"

definition SemaphoreBase_takeFromISR_NULL :: "('s, 'a) kernel \<Rightarrow> SemaphoreBase \<Rightarrow> ('s, 'a, bool) action" where
  SemaphoreBase_takeFromISR_NULL_def [method_defs]: "SemaphoreBase_takeFromISR_NULL K this w =
     (let (r, w') = call K (KCall ''xSemaphoreTakeFromISR'' [V (handle this), V NULL]) w
      in (ret r = pdTRUE, w'))"

definition SemaphoreBase_give :: "('s, 'a) kernel \<Rightarrow> SemaphoreBase \<Rightarrow> ('s, 'a, bool) action" where
  SemaphoreBase_give_def [method_defs]: "SemaphoreBase_give K this w =
     (let (r, w') = call K (KCall ''xSemaphoreGive'' [V (handle this)]) w
      in (ret r = pdTRUE, w'))"

definition SemaphoreBase_giveFromISR :: "('s, 'a) kernel \<Rightarrow> SemaphoreBase \<Rightarrow> bool \<Rightarrow> ('s, 'a, bool \<times> bool) action" where
  SemaphoreBase_giveFromISR_def [method_defs]: "SemaphoreBase_giveFromISR K this higherPriorityTaskWoken w =
     (let taskWoken = pdFALSE;
          (r, w') = call K (KCall ''xSemaphoreGiveFromISR''
                              [V (handle this), Addr ''taskWoken'' (Some taskWoken)]) w;
          taskWoken = stored taskWoken (woken_out r);
          result = (ret r = pdTRUE)
      in ((result, if taskWoken = pdTRUE then True else higherPriorityTaskWoken), w'))"

definition SemaphoreBase_giveFromISR_NULL :: "('s, 'a) kernel \<Rightarrow> SemaphoreBase \<Rightarrow> ('s, 'a, bool) action" where
  SemaphoreBase_giveFromISR_NULL_def [method_defs]: "SemaphoreBase_giveFromISR_NULL K this w =
     (let (r, w') = call K (KCall ''xSemaphoreGiveFromISR'' [V (handle this), V NULL]) w
      in (ret r = pdTRUE, w'))"

definition SemaphoreBase_dtor :: "('s, 'a) kernel \<Rightarrow> SemaphoreBase \<Rightarrow> ('s, 'a, unit) action" where
  SemaphoreBase_dtor_def [method_defs]: "SemaphoreBase_dtor K this w =
     (let (r, w') = call K (KCall ''vSemaphoreDelete'' [V (handle this)]) w
      in ((), w'))"

definition BinarySemaphore_ctor :: "('s, 'a) kernel \<Rightarrow> ('s, 'a, SemaphoreBase) action" where
  BinarySemaphore_ctor_def [method_defs]: "BinarySemaphore_ctor K w =
     (let this = SemaphoreBase_ctor;
          (r, w') = call K (KCall ''xSemaphoreCreateBinary'' []) w
      in (this\<lparr>handle := ret r\<rparr>, w'))"

definition CountingSemaphore_ctor ::
  "('s, 'a) kernel \<Rightarrow> UBaseType_t \<Rightarrow> UBaseType_t \<Rightarrow> ('s, 'a, SemaphoreBase) action" where
  CountingSemaphore_ctor_def [method_defs]: "CountingSemaphore_ctor K maxCount initialCount w =
     (let this = SemaphoreBase_ctor;
          (r, w') = call K (KCall ''xSemaphoreCreateCounting'' [V maxCount, V initialCount]) w
      in (this\<lparr>handle := ret r\<rparr>, w'))"

definition StaticBinarySemaphore_ctor :: "('s, 'a) kernel \<Rightarrow> 32 word \<Rightarrow> ('s, 'a, SemaphoreBase) action" where
  StaticBinarySemaphore_ctor_def [method_defs]: "StaticBinarySemaphore_ctor K addr w =
     (let this = SemaphoreBase_ctor;
          (r, w') = call K (KCall ''xSemaphoreCreateBinaryStatic''
                              [Member addr ''staticBinarySemaphore'']) w
      in (this\<lparr>handle := ret r\<rparr>, w'))"

definition StaticCountingSemaphore_ctor ::
  "('s, 'a) kernel \<Rightarrow> 32 word \<Rightarrow> UBaseType_t \<Rightarrow> UBaseType_t \<Rightarrow> ('s, 'a, SemaphoreBase) action" where
  StaticCountingSemaphore_ctor_def [method_defs]: "StaticCountingSemaphore_ctor K addr maxCount initialCount w =
     (let this = SemaphoreBase_ctor;
          (r, w') = call K (KCall ''xSemaphoreCreateCountingStatic''
                              [V maxCount, V initialCount, Member addr ''staticCountingSemaphore'']) w
      in (this\<lparr>handle := ret r\<rparr>, w'))"

section \<open>Queue.hpp\<close>

text \<open>
  \<^verbatim>\<open>QueueBase<T>\<close>: the type variable \<open>'a\<close> is the item type \<open>T\<close>. A read declares a local
  \<^verbatim>\<open>T buffer\<close> without initialising it; the parameter \<open>buffer\<close> of the reading methods is that
  indeterminate content, which the kernel's copy replaces.
\<close>

type_synonym QueueBase = Wrapper

definition QueueBase_ctor :: QueueBase where
  QueueBase_ctor_def [method_defs]: "QueueBase_ctor = \<lparr>handle = NULL\<rparr>"


definition QueueBase_sendToBack :: "('s, 'a) kernel \<Rightarrow> QueueBase \<Rightarrow> 'a \<Rightarrow> TickType_t \<Rightarrow> ('s, 'a, bool) action" where
  QueueBase_sendToBack_def [method_defs]: "QueueBase_sendToBack K this item ticksToWait w =
     (let (r, w') = call K (KCall ''xQueueSendToBack'' [V (handle this), AddrItem item, V ticksToWait]) w
      in (ret r = pdTRUE, w'))"

definition QueueBase_sendToBackFromISR :: "('s, 'a) kernel \<Rightarrow> QueueBase \<Rightarrow> bool \<Rightarrow> 'a \<Rightarrow> ('s, 'a, bool \<times> bool) action" where
  QueueBase_sendToBackFromISR_def [method_defs]: "QueueBase_sendToBackFromISR K this higherPriorityTaskWoken item w =
     (let taskWoken = pdFALSE;
          (r, w') = call K (KCall ''xQueueSendToBackFromISR''
                              [V (handle this), AddrItem item, Addr ''taskWoken'' (Some taskWoken)]) w;
          taskWoken = stored taskWoken (woken_out r);
          result = (ret r = pdPASS)
      in ((result, if taskWoken = pdTRUE then True else higherPriorityTaskWoken), w'))"

definition QueueBase_sendToBackFromISR_NULL :: "('s, 'a) kernel \<Rightarrow> QueueBase \<Rightarrow> 'a \<Rightarrow> ('s, 'a, bool) action" where
  QueueBase_sendToBackFromISR_NULL_def [method_defs]: "QueueBase_sendToBackFromISR_NULL K this item w =
     (let (r, w') = call K (KCall ''xQueueSendToBackFromISR'' [V (handle this), AddrItem item, V NULL]) w
      in (ret r = pdPASS, w'))"

definition QueueBase_sendToFront :: "('s, 'a) kernel \<Rightarrow> QueueBase \<Rightarrow> 'a \<Rightarrow> TickType_t \<Rightarrow> ('s, 'a, bool) action" where
  QueueBase_sendToFront_def [method_defs]: "QueueBase_sendToFront K this item ticksToWait w =
     (let (r, w') = call K (KCall ''xQueueSendToFront'' [V (handle this), AddrItem item, V ticksToWait]) w
      in (ret r = pdTRUE, w'))"

definition QueueBase_sendToFrontFromISR :: "('s, 'a) kernel \<Rightarrow> QueueBase \<Rightarrow> bool \<Rightarrow> 'a \<Rightarrow> ('s, 'a, bool \<times> bool) action" where
  QueueBase_sendToFrontFromISR_def [method_defs]: "QueueBase_sendToFrontFromISR K this higherPriorityTaskWoken item w =
     (let taskWoken = pdFALSE;
          (r, w') = call K (KCall ''xQueueSendToFrontFromISR''
                              [V (handle this), AddrItem item, Addr ''taskWoken'' (Some taskWoken)]) w;
          taskWoken = stored taskWoken (woken_out r);
          result = (ret r = pdPASS)
      in ((result, if taskWoken = pdTRUE then True else higherPriorityTaskWoken), w'))"

definition QueueBase_sendToFrontFromISR_NULL :: "('s, 'a) kernel \<Rightarrow> QueueBase \<Rightarrow> 'a \<Rightarrow> ('s, 'a, bool) action" where
  QueueBase_sendToFrontFromISR_NULL_def [method_defs]: "QueueBase_sendToFrontFromISR_NULL K this item w =
     (let (r, w') = call K (KCall ''xQueueSendToFrontFromISR'' [V (handle this), AddrItem item, V NULL]) w
      in (ret r = pdPASS, w'))"

definition QueueBase_receive :: "('s, 'a) kernel \<Rightarrow> QueueBase \<Rightarrow> 'a \<Rightarrow> TickType_t \<Rightarrow> ('s, 'a, 'a option) action" where
  QueueBase_receive_def [method_defs]: "QueueBase_receive K this buffer ticksToWait w =
     (let (r, w') = call K (KCall ''xQueueReceive'' [V (handle this), AddrBuffer, V ticksToWait]) w;
          buffer = stored buffer (item_out r)
      in (if ret r = pdTRUE then Some buffer else None, w'))"

definition QueueBase_receiveFromISR :: "('s, 'a) kernel \<Rightarrow> QueueBase \<Rightarrow> 'a \<Rightarrow> bool \<Rightarrow> ('s, 'a, 'a option \<times> bool) action" where
  QueueBase_receiveFromISR_def [method_defs]: "QueueBase_receiveFromISR K this buffer higherPriorityTaskWoken w =
     (let taskWoken = pdFALSE;
          (r, w') = call K (KCall ''xQueueReceiveFromISR''
                              [V (handle this), AddrBuffer, Addr ''taskWoken'' (Some taskWoken)]) w;
          buffer = stored buffer (item_out r);
          taskWoken = stored taskWoken (woken_out r);
          result = (ret r = pdTRUE)
      in ((if result then Some buffer else None,
           if taskWoken = pdTRUE then True else higherPriorityTaskWoken), w'))"

definition QueueBase_receiveFromISR_NULL :: "('s, 'a) kernel \<Rightarrow> QueueBase \<Rightarrow> 'a \<Rightarrow> ('s, 'a, 'a option) action" where
  QueueBase_receiveFromISR_NULL_def [method_defs]: "QueueBase_receiveFromISR_NULL K this buffer w =
     (let (r, w') = call K (KCall ''xQueueReceiveFromISR'' [V (handle this), AddrBuffer, V NULL]) w;
          buffer = stored buffer (item_out r)
      in (if ret r = pdTRUE then Some buffer else None, w'))"

definition QueueBase_messagesWaiting :: "('s, 'a) kernel \<Rightarrow> QueueBase \<Rightarrow> ('s, 'a, UBaseType_t) action" where
  QueueBase_messagesWaiting_def [method_defs]: "QueueBase_messagesWaiting K this w =
     (let (r, w') = call K (KCall ''uxQueueMessagesWaiting'' [V (handle this)]) w
      in (ret r, w'))"

definition QueueBase_messagesWaitingFromISR :: "('s, 'a) kernel \<Rightarrow> QueueBase \<Rightarrow> ('s, 'a, UBaseType_t) action" where
  QueueBase_messagesWaitingFromISR_def [method_defs]: "QueueBase_messagesWaitingFromISR K this w =
     (let (r, w') = call K (KCall ''uxQueueMessagesWaitingFromISR'' [V (handle this)]) w
      in (ret r, w'))"

definition QueueBase_spacesAvailable :: "('s, 'a) kernel \<Rightarrow> QueueBase \<Rightarrow> ('s, 'a, UBaseType_t) action" where
  QueueBase_spacesAvailable_def [method_defs]: "QueueBase_spacesAvailable K this w =
     (let (r, w') = call K (KCall ''uxQueueSpacesAvailable'' [V (handle this)]) w
      in (ret r, w'))"

definition QueueBase_reset :: "('s, 'a) kernel \<Rightarrow> QueueBase \<Rightarrow> ('s, 'a, unit) action" where
  QueueBase_reset_def [method_defs]: "QueueBase_reset K this w =
     (let (r, w') = call K (KCall ''xQueueReset'' [V (handle this)]) w
      in ((), w'))"

definition QueueBase_overwrite :: "('s, 'a) kernel \<Rightarrow> QueueBase \<Rightarrow> 'a \<Rightarrow> ('s, 'a, unit) action" where
  QueueBase_overwrite_def [method_defs]: "QueueBase_overwrite K this item w =
     (let (r, w') = call K (KCall ''xQueueOverwrite'' [V (handle this), AddrItem item]) w
      in ((), w'))"

definition QueueBase_overwriteFromISR :: "('s, 'a) kernel \<Rightarrow> QueueBase \<Rightarrow> bool \<Rightarrow> 'a \<Rightarrow> ('s, 'a, unit \<times> bool) action" where
  QueueBase_overwriteFromISR_def [method_defs]: "QueueBase_overwriteFromISR K this higherPriorityTaskWoken item w =
     (let taskWoken = pdFALSE;
          (r, w') = call K (KCall ''xQueueOverwriteFromISR''
                              [V (handle this), AddrItem item, Addr ''taskWoken'' (Some taskWoken)]) w;
          taskWoken = stored taskWoken (woken_out r)
      in (((), if taskWoken = pdTRUE then True else higherPriorityTaskWoken), w'))"

definition QueueBase_overwriteFromISR_NULL :: "('s, 'a) kernel \<Rightarrow> QueueBase \<Rightarrow> 'a \<Rightarrow> ('s, 'a, unit) action" where
  QueueBase_overwriteFromISR_NULL_def [method_defs]: "QueueBase_overwriteFromISR_NULL K this item w =
     (let (r, w') = call K (KCall ''xQueueOverwriteFromISR'' [V (handle this), AddrItem item, V NULL]) w
      in ((), w'))"

definition QueueBase_peek :: "('s, 'a) kernel \<Rightarrow> QueueBase \<Rightarrow> 'a \<Rightarrow> TickType_t \<Rightarrow> ('s, 'a, 'a option) action" where
  QueueBase_peek_def [method_defs]: "QueueBase_peek K this buffer ticksToWait w =
     (let (r, w') = call K (KCall ''xQueuePeek'' [V (handle this), AddrBuffer, V ticksToWait]) w;
          buffer = stored buffer (item_out r)
      in (if ret r = pdTRUE then Some buffer else None, w'))"

definition QueueBase_peekFromISR :: "('s, 'a) kernel \<Rightarrow> QueueBase \<Rightarrow> 'a \<Rightarrow> ('s, 'a, 'a option) action" where
  QueueBase_peekFromISR_def [method_defs]: "QueueBase_peekFromISR K this buffer w =
     (let (r, w') = call K (KCall ''xQueuePeekFromISR'' [V (handle this), AddrBuffer]) w;
          buffer = stored buffer (item_out r)
      in (if ret r = pdTRUE then Some buffer else None, w'))"

definition QueueBase_addToRegistry :: "('s, 'a) kernel \<Rightarrow> QueueBase \<Rightarrow> string \<Rightarrow> ('s, 'a, unit) action" where
  QueueBase_addToRegistry_def [method_defs]: "QueueBase_addToRegistry K this name w =
     (let (r, w') = call K (KCall ''vQueueAddToRegistry'' [V (handle this), Name name]) w
      in ((), w'))"

definition QueueBase_unregister :: "('s, 'a) kernel \<Rightarrow> QueueBase \<Rightarrow> ('s, 'a, unit) action" where
  QueueBase_unregister_def [method_defs]: "QueueBase_unregister K this w =
     (let (r, w') = call K (KCall ''vQueueUnregisterQueue'' [V (handle this)]) w
      in ((), w'))"

definition QueueBase_getName :: "('s, 'a) kernel \<Rightarrow> QueueBase \<Rightarrow> ('s, 'a, 32 word) action" where
  QueueBase_getName_def [method_defs]: "QueueBase_getName K this w =
     (let (r, w') = call K (KCall ''pcQueueGetName'' [V (handle this)]) w
      in (ret r, w'))"

definition QueueBase_isFullFromISR :: "('s, 'a) kernel \<Rightarrow> QueueBase \<Rightarrow> ('s, 'a, bool) action" where
  QueueBase_isFullFromISR_def [method_defs]: "QueueBase_isFullFromISR K this w =
     (let (r, w') = call K (KCall ''xQueueIsQueueFullFromISR'' [V (handle this)]) w
      in (ret r = pdTRUE, w'))"

definition QueueBase_isEmptyFromISR :: "('s, 'a) kernel \<Rightarrow> QueueBase \<Rightarrow> ('s, 'a, bool) action" where
  QueueBase_isEmptyFromISR_def [method_defs]: "QueueBase_isEmptyFromISR K this w =
     (let (r, w') = call K (KCall ''xQueueIsQueueEmptyFromISR'' [V (handle this)]) w
      in (ret r = pdTRUE, w'))"

definition QueueBase_dtor :: "('s, 'a) kernel \<Rightarrow> QueueBase \<Rightarrow> ('s, 'a, unit) action" where
  QueueBase_dtor_def [method_defs]: "QueueBase_dtor K this w =
     (let (r, w') = call K (KCall ''vQueueDelete'' [V (handle this)]) w
      in ((), w'))"

text \<open>
  \<^verbatim>\<open>Queue<T>\<close> and \<^verbatim>\<open>StaticQueue<T, N>\<close>. \<open>sizeof_T\<close> is \<^verbatim>\<open>sizeof(T)\<close> and \<open>N\<close> the template
  argument.
\<close>

definition Queue_ctor :: "('s, 'a) kernel \<Rightarrow> nat \<Rightarrow> UBaseType_t \<Rightarrow> ('s, 'a, QueueBase) action" where
  Queue_ctor_def [method_defs]: "Queue_ctor K sizeof_T length' w =
     (let this = QueueBase_ctor;
          (r, w') = call K (KCall ''xQueueCreate'' [V length', V (of_nat sizeof_T)]) w
      in (this\<lparr>handle := ret r\<rparr>, w'))"

definition StaticQueue_ctor :: "('s, 'a) kernel \<Rightarrow> nat \<Rightarrow> nat \<Rightarrow> 32 word \<Rightarrow> ('s, 'a, QueueBase) action" where
  StaticQueue_ctor_def [method_defs]: "StaticQueue_ctor K sizeof_T N addr w =
     (let this = QueueBase_ctor;
          (r, w') = call K (KCall ''xQueueCreateStatic''
                              [V (of_nat N), V (of_nat sizeof_T), Member addr ''storage'',
                               Member addr ''staticQueue'']) w
      in (this\<lparr>handle := ret r\<rparr>, w'))"

section \<open>Kernel.hpp\<close>

text \<open>
  The functions of namespace \<^verbatim>\<open>FreeRTOS::Kernel\<close>. \<^verbatim>\<open>SchedulerState\<close> is an enumeration over
  \<^verbatim>\<open>BaseType_t\<close> whose enumerators are the kernel's constants, and \<^verbatim>\<open>static_cast\<close> keeps
  the value.
\<close>

definition Kernel_getSchedulerState :: "('s, 'a) kernel \<Rightarrow> ('s, 'a, BaseType_t) action" where
  Kernel_getSchedulerState_def [method_defs]: "Kernel_getSchedulerState K w =
     (let (r, w') = call K (KCall ''xTaskGetSchedulerState'' []) w
      in (ret r, w'))"

definition Kernel_getNumberOfTasks :: "('s, 'a) kernel \<Rightarrow> ('s, 'a, UBaseType_t) action" where
  Kernel_getNumberOfTasks_def [method_defs]: "Kernel_getNumberOfTasks K w =
     (let (r, w') = call K (KCall ''uxTaskGetNumberOfTasks'' []) w
      in (ret r, w'))"

definition Kernel_getIdleRunTimeCounter :: "('s, 'a) kernel \<Rightarrow> ('s, 'a, TickType_t) action" where
  Kernel_getIdleRunTimeCounter_def [method_defs]: "Kernel_getIdleRunTimeCounter K w =
     (let (r, w') = call K (KCall ''xTaskGetIdleRunTimeCounter'' []) w
      in (ret r, w'))"

definition Kernel_getTickCount :: "('s, 'a) kernel \<Rightarrow> ('s, 'a, TickType_t) action" where
  Kernel_getTickCount_def [method_defs]: "Kernel_getTickCount K w =
     (let (r, w') = call K (KCall ''xTaskGetTickCount'' []) w
      in (ret r, w'))"

definition Kernel_getTickCountFromISR :: "('s, 'a) kernel \<Rightarrow> ('s, 'a, TickType_t) action" where
  Kernel_getTickCountFromISR_def [method_defs]: "Kernel_getTickCountFromISR K w =
     (let (r, w') = call K (KCall ''xTaskGetTickCountFromISR'' []) w
      in (ret r, w'))"

definition Kernel_yield :: "('s, 'a) kernel \<Rightarrow> ('s, 'a, unit) action" where
  Kernel_yield_def [method_defs]: "Kernel_yield K w =
     (let (r, w') = call K (KCall ''taskYIELD'' []) w
      in ((), w'))"

definition Kernel_enterCritical :: "('s, 'a) kernel \<Rightarrow> ('s, 'a, unit) action" where
  Kernel_enterCritical_def [method_defs]: "Kernel_enterCritical K w =
     (let (r, w') = call K (KCall ''taskENTER_CRITICAL'' []) w
      in ((), w'))"

definition Kernel_enterCriticalFromISR :: "('s, 'a) kernel \<Rightarrow> ('s, 'a, uint32_t) action" where
  Kernel_enterCriticalFromISR_def [method_defs]: "Kernel_enterCriticalFromISR K w =
     (let (r, w') = call K (KCall ''taskENTER_CRITICAL_FROM_ISR'' []) w
      in (ret r, w'))"

definition Kernel_exitCritical :: "('s, 'a) kernel \<Rightarrow> ('s, 'a, unit) action" where
  Kernel_exitCritical_def [method_defs]: "Kernel_exitCritical K w =
     (let (r, w') = call K (KCall ''taskEXIT_CRITICAL'' []) w
      in ((), w'))"

definition Kernel_exitCriticalFromISR :: "('s, 'a) kernel \<Rightarrow> uint32_t \<Rightarrow> ('s, 'a, unit) action" where
  Kernel_exitCriticalFromISR_def [method_defs]: "Kernel_exitCriticalFromISR K interruptStatus w =
     (let (r, w') = call K (KCall ''taskEXIT_CRITICAL_FROM_ISR'' [V interruptStatus]) w
      in ((), w'))"

definition Kernel_disableInterrupts :: "('s, 'a) kernel \<Rightarrow> ('s, 'a, unit) action" where
  Kernel_disableInterrupts_def [method_defs]: "Kernel_disableInterrupts K w =
     (let (r, w') = call K (KCall ''taskDISABLE_INTERRUPTS'' []) w
      in ((), w'))"

definition Kernel_enableInterrupts :: "('s, 'a) kernel \<Rightarrow> ('s, 'a, unit) action" where
  Kernel_enableInterrupts_def [method_defs]: "Kernel_enableInterrupts K w =
     (let (r, w') = call K (KCall ''taskENABLE_INTERRUPTS'' []) w
      in ((), w'))"

definition Kernel_startScheduler :: "('s, 'a) kernel \<Rightarrow> ('s, 'a, unit) action" where
  Kernel_startScheduler_def [method_defs]: "Kernel_startScheduler K w =
     (let (r, w') = call K (KCall ''vTaskStartScheduler'' []) w
      in ((), w'))"

definition Kernel_endScheduler :: "('s, 'a) kernel \<Rightarrow> ('s, 'a, unit) action" where
  Kernel_endScheduler_def [method_defs]: "Kernel_endScheduler K w =
     (let (r, w') = call K (KCall ''vTaskEndScheduler'' []) w
      in ((), w'))"

definition Kernel_suspendAll :: "('s, 'a) kernel \<Rightarrow> ('s, 'a, unit) action" where
  Kernel_suspendAll_def [method_defs]: "Kernel_suspendAll K w =
     (let (r, w') = call K (KCall ''vTaskSuspendAll'' []) w
      in ((), w'))"

definition Kernel_resumeAll :: "('s, 'a) kernel \<Rightarrow> ('s, 'a, bool) action" where
  Kernel_resumeAll_def [method_defs]: "Kernel_resumeAll K w =
     (let (r, w') = call K (KCall ''xTaskResumeAll'' []) w
      in (ret r = pdTRUE, w'))"

definition Kernel_stepTick :: "('s, 'a) kernel \<Rightarrow> TickType_t \<Rightarrow> ('s, 'a, unit) action" where
  Kernel_stepTick_def [method_defs]: "Kernel_stepTick K ticksToJump w =
     (let (r, w') = call K (KCall ''vTaskStepTick'' [V ticksToJump]) w
      in ((), w'))"

definition Kernel_catchUpTicks :: "('s, 'a) kernel \<Rightarrow> TickType_t \<Rightarrow> ('s, 'a, bool) action" where
  Kernel_catchUpTicks_def [method_defs]: "Kernel_catchUpTicks K ticksToCatchUp w =
     (let (r, w') = call K (KCall ''xTaskCatchUpTicks'' [V ticksToCatchUp]) w
      in (ret r = pdTRUE, w'))"

section \<open>Task.hpp\<close>

text \<open>
  \<^verbatim>\<open>TaskBase\<close> adds \<^verbatim>\<open>previousWakeTime\<close> to the handle, and \<^verbatim>\<open>Task\<close> adds
  \<^verbatim>\<open>taskCreatedSuccessfully\<close>. The enumerations \<^verbatim>\<open>State\<close> and \<^verbatim>\<open>NotifyAction\<close> take their
  enumerators from the kernel's, and \<^verbatim>\<open>static_cast\<close> keeps the value in both directions.
  \<^verbatim>\<open>taskFunction\<close> is pure virtual: the user's override is a parameter of \<^verbatim>\<open>taskEntry\<close>.
  A method that declares \<^verbatim>\<open>uint32_t pulNotificationValue\<close> without initialising it takes that
  indeterminate content as the parameter \<open>pulNotificationValue\<close>.
\<close>

record TaskBase = Wrapper +
  previousWakeTime :: TickType_t

record Task = TaskBase +
  taskCreatedSuccessfully :: bool

definition TaskBase_ctor :: TaskBase where
  TaskBase_ctor_def [method_defs]: "TaskBase_ctor = \<lparr>handle = NULL, previousWakeTime = 0\<rparr>"


definition TaskBase_getPriority :: "('s, 'a) kernel \<Rightarrow> 'z TaskBase_scheme \<Rightarrow> ('s, 'a, UBaseType_t) action" where
  TaskBase_getPriority_def [method_defs]: "TaskBase_getPriority K this w =
     (let (r, w') = call K (KCall ''uxTaskPriorityGet'' [V (handle this)]) w
      in (ret r, w'))"

definition TaskBase_setPriority :: "('s, 'a) kernel \<Rightarrow> 'z TaskBase_scheme \<Rightarrow> UBaseType_t \<Rightarrow> ('s, 'a, unit) action" where
  TaskBase_setPriority_def [method_defs]: "TaskBase_setPriority K this newPriority w =
     (let (r, w') = call K (KCall ''vTaskPrioritySet'' [V (handle this), V newPriority]) w
      in ((), w'))"

definition TaskBase_suspend :: "('s, 'a) kernel \<Rightarrow> 'z TaskBase_scheme \<Rightarrow> ('s, 'a, unit) action" where
  TaskBase_suspend_def [method_defs]: "TaskBase_suspend K this w =
     (let (r, w') = call K (KCall ''vTaskSuspend'' [V (handle this)]) w
      in ((), w'))"

definition TaskBase_resume :: "('s, 'a) kernel \<Rightarrow> 'z TaskBase_scheme \<Rightarrow> ('s, 'a, unit) action" where
  TaskBase_resume_def [method_defs]: "TaskBase_resume K this w =
     (let (r, w') = call K (KCall ''vTaskResume'' [V (handle this)]) w
      in ((), w'))"

definition TaskBase_resumeFromISR :: "('s, 'a) kernel \<Rightarrow> 'z TaskBase_scheme \<Rightarrow> ('s, 'a, bool) action" where
  TaskBase_resumeFromISR_def [method_defs]: "TaskBase_resumeFromISR K this w =
     (let (r, w') = call K (KCall ''xTaskResumeFromISR'' [V (handle this)]) w
      in (ret r = pdTRUE, w'))"

definition TaskBase_abortDelay :: "('s, 'a) kernel \<Rightarrow> 'z TaskBase_scheme \<Rightarrow> ('s, 'a, bool) action" where
  TaskBase_abortDelay_def [method_defs]: "TaskBase_abortDelay K this w =
     (let (r, w') = call K (KCall ''xTaskAbortDelay'' [V (handle this)]) w
      in (ret r = pdPASS, w'))"

definition TaskBase_getIdleHandle :: "('s, 'a) kernel \<Rightarrow> ('s, 'a, handle_t) action" where
  TaskBase_getIdleHandle_def [method_defs]: "TaskBase_getIdleHandle K w =
     (let (r, w') = call K (KCall ''xTaskGetIdleTaskHandle'' []) w
      in (ret r, w'))"

definition TaskBase_getStackHighWaterMark :: "('s, 'a) kernel \<Rightarrow> 'z TaskBase_scheme \<Rightarrow> ('s, 'a, UBaseType_t) action" where
  TaskBase_getStackHighWaterMark_def [method_defs]: "TaskBase_getStackHighWaterMark K this w =
     (let (r, w') = call K (KCall ''uxTaskGetStackHighWaterMark'' [V (handle this)]) w
      in (ret r, w'))"

definition TaskBase_getStackHighWaterMark2 :: "('s, 'a) kernel \<Rightarrow> 'z TaskBase_scheme \<Rightarrow> ('s, 'a, 32 word) action" where
  TaskBase_getStackHighWaterMark2_def [method_defs]: "TaskBase_getStackHighWaterMark2 K this w =
     (let (r, w') = call K (KCall ''uxTaskGetStackHighWaterMark2'' [V (handle this)]) w
      in (ret r, w'))"

definition TaskBase_getState :: "('s, 'a) kernel \<Rightarrow> 'z TaskBase_scheme \<Rightarrow> ('s, 'a, 32 word) action" where
  TaskBase_getState_def [method_defs]: "TaskBase_getState K this w =
     (let (r, w') = call K (KCall ''eTaskGetState'' [V (handle this)]) w
      in (ret r, w'))"

definition TaskBase_getName :: "('s, 'a) kernel \<Rightarrow> 'z TaskBase_scheme \<Rightarrow> ('s, 'a, 32 word) action" where
  TaskBase_getName_def [method_defs]: "TaskBase_getName K this w =
     (let (r, w') = call K (KCall ''pcTaskGetName'' [V (handle this)]) w
      in (ret r, w'))"

definition TaskBase_getHandle :: "('s, 'a) kernel \<Rightarrow> string \<Rightarrow> ('s, 'a, handle_t) action" where
  TaskBase_getHandle_def [method_defs]: "TaskBase_getHandle K name w =
     (let (r, w') = call K (KCall ''xTaskGetHandle'' [Name name]) w
      in (ret r, w'))"

definition TaskBase_notifyGive :: "('s, 'a) kernel \<Rightarrow> 'z TaskBase_scheme \<Rightarrow> UBaseType_t \<Rightarrow> ('s, 'a, unit) action" where
  TaskBase_notifyGive_def [method_defs]: "TaskBase_notifyGive K this index w =
     (let (r, w') = call K (KCall ''xTaskNotifyGiveIndexed'' [V (handle this), V index]) w
      in ((), w'))"

definition TaskBase_notifyGiveFromISR :: "('s, 'a) kernel \<Rightarrow> 'z TaskBase_scheme \<Rightarrow> bool \<Rightarrow> UBaseType_t \<Rightarrow> ('s, 'a, unit \<times> bool) action" where
  TaskBase_notifyGiveFromISR_def [method_defs]: "TaskBase_notifyGiveFromISR K this higherPriorityTaskWoken index w =
     (let taskWoken = pdFALSE;
          (r, w') = call K (KCall ''vTaskNotifyGiveIndexedFromISR''
                              [V (handle this), V index, Addr ''taskWoken'' (Some taskWoken)]) w;
          taskWoken = stored taskWoken (woken_out r);
          result = (())
      in (((), if taskWoken = pdTRUE then True else higherPriorityTaskWoken), w'))"

definition TaskBase_notifyGiveFromISR_NULL :: "('s, 'a) kernel \<Rightarrow> 'z TaskBase_scheme \<Rightarrow> UBaseType_t \<Rightarrow> ('s, 'a, unit) action" where
  TaskBase_notifyGiveFromISR_NULL_def [method_defs]: "TaskBase_notifyGiveFromISR_NULL K this index w =
     (let (r, w') = call K (KCall ''vTaskNotifyGiveIndexedFromISR''
                              [V (handle this), V index, V NULL]) w
      in ((), w'))"

definition TaskBase_notify :: "('s, 'a) kernel \<Rightarrow> 'z TaskBase_scheme \<Rightarrow> 32 word \<Rightarrow> NotificationBits_t \<Rightarrow> UBaseType_t \<Rightarrow> ('s, 'a, bool) action" where
  TaskBase_notify_def [method_defs]: "TaskBase_notify K this action value index w =
     (let (r, w') = call K (KCall ''xTaskNotifyIndexed''
                              [V (handle this), V index, V (to_ulong value), V action]) w
      in (ret r = pdPASS, w'))"

definition TaskBase_notifyAndQuery ::
  "('s, 'a) kernel \<Rightarrow> 'z TaskBase_scheme \<Rightarrow> uint32_t \<Rightarrow> 32 word \<Rightarrow> NotificationBits_t \<Rightarrow> UBaseType_t \<Rightarrow>
     ('s, 'a, bool \<times> NotificationBits_t) action" where
  TaskBase_notifyAndQuery_def [method_defs]: "TaskBase_notifyAndQuery K this pulNotificationValue action value index w =
     (let (r, w') = call K (KCall ''xTaskNotifyAndQueryIndexed''
                              [V (handle this), V index, V (to_ulong value), V action,
                               Addr ''pulNotificationValue'' None]) w;
          pulNotificationValue = stored pulNotificationValue (value_out r);
          result = (ret r = pdPASS)
      in ((result, NotificationBits pulNotificationValue), w'))"

definition TaskBase_notifyAndQueryFromISR ::
  "('s, 'a) kernel \<Rightarrow> 'z TaskBase_scheme \<Rightarrow> uint32_t \<Rightarrow> bool \<Rightarrow> 32 word \<Rightarrow> NotificationBits_t \<Rightarrow> UBaseType_t \<Rightarrow>
     ('s, 'a, (bool \<times> NotificationBits_t) \<times> bool) action" where
  TaskBase_notifyAndQueryFromISR_def [method_defs]: "TaskBase_notifyAndQueryFromISR K this pulNotificationValue higherPriorityTaskWoken action value index w =
     (let taskWoken = pdFALSE;
          (r, w') = call K (KCall ''xTaskNotifyAndQueryIndexedFromISR''
                              [V (handle this), V index, V (to_ulong value), V action,
                               Addr ''pulNotificationValue'' None,
                               Addr ''taskWoken'' (Some taskWoken)]) w;
          pulNotificationValue = stored pulNotificationValue (value_out r);
          taskWoken = stored taskWoken (woken_out r);
          result = (ret r = pdPASS)
      in (((result, NotificationBits pulNotificationValue),
           if taskWoken = pdTRUE then True else higherPriorityTaskWoken), w'))"

definition TaskBase_notifyAndQueryFromISR_NULL ::
  "('s, 'a) kernel \<Rightarrow> 'z TaskBase_scheme \<Rightarrow> uint32_t \<Rightarrow> 32 word \<Rightarrow> NotificationBits_t \<Rightarrow> UBaseType_t \<Rightarrow>
     ('s, 'a, bool \<times> NotificationBits_t) action" where
  TaskBase_notifyAndQueryFromISR_NULL_def [method_defs]: "TaskBase_notifyAndQueryFromISR_NULL K this pulNotificationValue action value index w =
     (let (r, w') = call K (KCall ''xTaskNotifyAndQueryIndexedFromISR''
                              [V (handle this), V index, V (to_ulong value), V action,
                               Addr ''pulNotificationValue'' None, V NULL]) w;
          pulNotificationValue = stored pulNotificationValue (value_out r);
          result = (ret r = pdPASS)
      in ((result, NotificationBits pulNotificationValue), w'))"

definition TaskBase_notifyFromISR :: "('s, 'a) kernel \<Rightarrow> 'z TaskBase_scheme \<Rightarrow> bool \<Rightarrow> 32 word \<Rightarrow> NotificationBits_t \<Rightarrow> UBaseType_t \<Rightarrow> ('s, 'a, bool \<times> bool) action" where
  TaskBase_notifyFromISR_def [method_defs]: "TaskBase_notifyFromISR K this higherPriorityTaskWoken action value index w =
     (let taskWoken = pdFALSE;
          (r, w') = call K (KCall ''xTaskNotifyIndexedFromISR''
                              [V (handle this), V index, V (to_ulong value), V action, Addr ''taskWoken'' (Some taskWoken)]) w;
          taskWoken = stored taskWoken (woken_out r);
          result = (ret r = pdPASS)
      in ((result, if taskWoken = pdTRUE then True else higherPriorityTaskWoken), w'))"

definition TaskBase_notifyFromISR_NULL :: "('s, 'a) kernel \<Rightarrow> 'z TaskBase_scheme \<Rightarrow> 32 word \<Rightarrow> NotificationBits_t \<Rightarrow> UBaseType_t \<Rightarrow> ('s, 'a, bool) action" where
  TaskBase_notifyFromISR_NULL_def [method_defs]: "TaskBase_notifyFromISR_NULL K this action value index w =
     (let (r, w') = call K (KCall ''xTaskNotifyIndexedFromISR''
                              [V (handle this), V index, V (to_ulong value), V action, V NULL]) w
      in (ret r = pdPASS, w'))"

definition TaskBase_notifyWait ::
  "('s, 'a) kernel \<Rightarrow> uint32_t \<Rightarrow> TickType_t \<Rightarrow> NotificationBits_t \<Rightarrow> NotificationBits_t \<Rightarrow> UBaseType_t \<Rightarrow>
     ('s, 'a, bool \<times> NotificationBits_t) action" where
  TaskBase_notifyWait_def [method_defs]: "TaskBase_notifyWait K pulNotificationValue ticksToWait bitsToClearOnEntry bitsToClearOnExit index w =
     (let (r, w') = call K (KCall ''xTaskNotifyWaitIndexed''
                              [V index, V (to_ulong bitsToClearOnEntry),
                               V (to_ulong bitsToClearOnExit),
                               Addr ''pulNotificationValue'' None, V ticksToWait]) w;
          pulNotificationValue = stored pulNotificationValue (value_out r);
          result = (ret r = pdTRUE)
      in ((result, NotificationBits pulNotificationValue), w'))"

definition TaskBase_notifyStateClear :: "('s, 'a) kernel \<Rightarrow> 'z TaskBase_scheme \<Rightarrow> UBaseType_t \<Rightarrow> ('s, 'a, bool) action" where
  TaskBase_notifyStateClear_def [method_defs]: "TaskBase_notifyStateClear K this index w =
     (let (r, w') = call K (KCall ''xTaskNotifyStateClearIndexed'' [V (handle this), V index]) w
      in (ret r = pdTRUE, w'))"

definition TaskBase_notifyValueClear :: "('s, 'a) kernel \<Rightarrow> 'z TaskBase_scheme \<Rightarrow> NotificationBits_t \<Rightarrow> UBaseType_t \<Rightarrow> ('s, 'a, NotificationBits_t) action" where
  TaskBase_notifyValueClear_def [method_defs]: "TaskBase_notifyValueClear K this bitsToClear index w =
     (let (r, w') = call K (KCall ''ulTaskNotifyValueClearIndexed''
                              [V (handle this), V index, V (to_ulong bitsToClear)]) w
      in (NotificationBits (ret r), w'))"

text \<open>The protected members: \<^verbatim>\<open>delay\<close>, \<^verbatim>\<open>delayUntil\<close> and \<^verbatim>\<open>notifyTake\<close>.\<close>

definition TaskBase_delay :: "('s, 'a) kernel \<Rightarrow> TickType_t \<Rightarrow> ('s, 'a, unit) action" where
  TaskBase_delay_def [method_defs]: "TaskBase_delay K ticksToDelay w =
     (let (r, w') = call K (KCall ''vTaskDelay'' [V ticksToDelay]) w
      in ((), w'))"

definition TaskBase_delayUntil ::
  "('s, 'a) kernel \<Rightarrow> 'z TaskBase_scheme \<Rightarrow> TickType_t \<Rightarrow> ('s, 'a, bool \<times> 'z TaskBase_scheme) action" where
  TaskBase_delayUntil_def [method_defs]: "TaskBase_delayUntil K this timeIncrement w =
     (let (r, w') = call K (KCall ''xTaskDelayUntil''
                              [Addr ''previousWakeTime'' (Some (previousWakeTime this)),
                               V timeIncrement]) w;
          this = this\<lparr>previousWakeTime := stored (previousWakeTime this) (value_out r)\<rparr>
      in ((ret r = pdTRUE, this), w'))"

definition TaskBase_notifyTake :: "('s, 'a) kernel \<Rightarrow> TickType_t \<Rightarrow> bool \<Rightarrow> UBaseType_t \<Rightarrow> ('s, 'a, NotificationBits_t) action" where
  TaskBase_notifyTake_def [method_defs]: "TaskBase_notifyTake K ticksToWait clearCountOnExit index w =
     (let (r, w') = call K (KCall ''ulTaskNotifyTakeIndexed''
                              [V index, V (if clearCountOnExit then 1 else 0), V ticksToWait]) w
      in (NotificationBits (ret r), w'))"

text \<open>
  \<^verbatim>\<open>~TaskBase\<close> is compiled with a body only when \<^verbatim>\<open>INCLUDE_vTaskDelete == 1\<close>, and deletes the
  task only when the handle is not \<^verbatim>\<open>NULL\<close>.
\<close>

definition TaskBase_dtor :: "('s, 'a) kernel \<Rightarrow> bool \<Rightarrow> 'z TaskBase_scheme \<Rightarrow> ('s, 'a, unit) action" where
  TaskBase_dtor_def [method_defs]: "TaskBase_dtor K INCLUDE_vTaskDelete this w =
     (if INCLUDE_vTaskDelete then
        (if handle this \<noteq> NULL then
           (let (r, w') = call K (KCall ''vTaskDelete'' [V (handle this)]) w
            in ((), w'))
         else ((), w))
      else ((), w))"


definition Task_ctor ::
  "('s, 'a) kernel \<Rightarrow> 32 word \<Rightarrow> UBaseType_t \<Rightarrow> 32 word \<Rightarrow> string \<Rightarrow> ('s, 'a, Task) action" where
  Task_ctor_def [method_defs]: "Task_ctor K addr priority stackDepth name w =
     (let this = \<lparr>handle = NULL, previousWakeTime = 0, taskCreatedSuccessfully = False\<rparr>;
          (r, w') = call K (KCall ''xTaskCreate''
                              [Fn ''callTaskFunction'', Name name, V stackDepth, This addr,
                               V priority, Addr ''handle'' (Some (handle this))]) w;
          this = this\<lparr>handle := stored (handle this) (value_out r)\<rparr>
      in (this\<lparr>taskCreatedSuccessfully := (ret r = pdPASS)\<rparr>, w'))"

definition StaticTask_ctor ::
  "('s, 'a) kernel \<Rightarrow> nat \<Rightarrow> 32 word \<Rightarrow> UBaseType_t \<Rightarrow> string \<Rightarrow> ('s, 'a, TaskBase) action" where
  StaticTask_ctor_def [method_defs]: "StaticTask_ctor K N addr priority name w =
     (let this = TaskBase_ctor;
          (r, w') = call K (KCall ''xTaskCreateStatic''
                              [Fn ''callTaskFunction'', Name name, V (of_nat N), This addr,
                               V priority, Member addr ''stack'', Member addr ''taskBuffer'']) w
      in (this\<lparr>handle := ret r\<rparr>, w'))"


section \<open>Timer.hpp\<close>

text \<open>
  \<^verbatim>\<open>TimerBase\<close> adds \<^verbatim>\<open>deleteBlockTime\<close> to the handle. \<^verbatim>\<open>timerFunction\<close> is pure virtual:
  the user's override is a parameter of \<^verbatim>\<open>timerEntry\<close>.
\<close>

record TimerBase = Wrapper +
  deleteBlockTime :: TickType_t

definition TimerBase_ctor :: "TickType_t \<Rightarrow> TimerBase" where
  TimerBase_ctor_def [method_defs]: "TimerBase_ctor deleteBlockTime' =
     \<lparr>handle = NULL, deleteBlockTime = deleteBlockTime'\<rparr>"


definition TimerBase_isValid :: "'z TimerBase_scheme \<Rightarrow> bool" where
  TimerBase_isValid_def [method_defs]: "TimerBase_isValid this = (handle this \<noteq> NULL)"

definition TimerBase_isActive :: "('s, 'a) kernel \<Rightarrow> 'z TimerBase_scheme \<Rightarrow> ('s, 'a, bool) action" where
  TimerBase_isActive_def [method_defs]: "TimerBase_isActive K this w =
     (let (r, w') = call K (KCall ''xTimerIsTimerActive'' [V (handle this)]) w
      in (ret r \<noteq> pdFALSE, w'))"

definition TimerBase_start :: "('s, 'a) kernel \<Rightarrow> 'z TimerBase_scheme \<Rightarrow> TickType_t \<Rightarrow> ('s, 'a, bool) action" where
  TimerBase_start_def [method_defs]: "TimerBase_start K this blockTime w =
     (let (r, w') = call K (KCall ''xTimerStart'' [V (handle this), V blockTime]) w
      in (ret r = pdPASS, w'))"

definition TimerBase_startFromISR :: "('s, 'a) kernel \<Rightarrow> 'z TimerBase_scheme \<Rightarrow> bool \<Rightarrow> ('s, 'a, bool \<times> bool) action" where
  TimerBase_startFromISR_def [method_defs]: "TimerBase_startFromISR K this higherPriorityTaskWoken w =
     (let taskWoken = pdFALSE;
          (r, w') = call K (KCall ''xTimerStartFromISR''
                              [V (handle this), Addr ''taskWoken'' (Some taskWoken)]) w;
          taskWoken = stored taskWoken (woken_out r);
          result = (ret r = pdPASS)
      in ((result, if taskWoken = pdTRUE then True else higherPriorityTaskWoken), w'))"

definition TimerBase_startFromISR_NULL :: "('s, 'a) kernel \<Rightarrow> 'z TimerBase_scheme \<Rightarrow> ('s, 'a, bool) action" where
  TimerBase_startFromISR_NULL_def [method_defs]: "TimerBase_startFromISR_NULL K this w =
     (let (r, w') = call K (KCall ''xTimerStartFromISR'' [V (handle this), V NULL]) w
      in (ret r = pdPASS, w'))"

definition TimerBase_stop :: "('s, 'a) kernel \<Rightarrow> 'z TimerBase_scheme \<Rightarrow> TickType_t \<Rightarrow> ('s, 'a, bool) action" where
  TimerBase_stop_def [method_defs]: "TimerBase_stop K this blockTime w =
     (let (r, w') = call K (KCall ''xTimerStop'' [V (handle this), V blockTime]) w
      in (ret r = pdPASS, w'))"

definition TimerBase_stopFromISR :: "('s, 'a) kernel \<Rightarrow> 'z TimerBase_scheme \<Rightarrow> bool \<Rightarrow> ('s, 'a, bool \<times> bool) action" where
  TimerBase_stopFromISR_def [method_defs]: "TimerBase_stopFromISR K this higherPriorityTaskWoken w =
     (let taskWoken = pdFALSE;
          (r, w') = call K (KCall ''xTimerStopFromISR''
                              [V (handle this), Addr ''taskWoken'' (Some taskWoken)]) w;
          taskWoken = stored taskWoken (woken_out r);
          result = (ret r = pdPASS)
      in ((result, if taskWoken = pdTRUE then True else higherPriorityTaskWoken), w'))"

definition TimerBase_stopFromISR_NULL :: "('s, 'a) kernel \<Rightarrow> 'z TimerBase_scheme \<Rightarrow> ('s, 'a, bool) action" where
  TimerBase_stopFromISR_NULL_def [method_defs]: "TimerBase_stopFromISR_NULL K this w =
     (let (r, w') = call K (KCall ''xTimerStopFromISR'' [V (handle this), V NULL]) w
      in (ret r = pdPASS, w'))"

definition TimerBase_changePeriod :: "('s, 'a) kernel \<Rightarrow> 'z TimerBase_scheme \<Rightarrow> TickType_t \<Rightarrow> TickType_t \<Rightarrow> ('s, 'a, bool) action" where
  TimerBase_changePeriod_def [method_defs]: "TimerBase_changePeriod K this newPeriod blockTime w =
     (let (r, w') = call K (KCall ''xTimerChangePeriod''
                              [V (handle this), V newPeriod, V blockTime]) w
      in (ret r = pdPASS, w'))"

definition TimerBase_changePeriodFromISR :: "('s, 'a) kernel \<Rightarrow> 'z TimerBase_scheme \<Rightarrow> bool \<Rightarrow> TickType_t \<Rightarrow> ('s, 'a, bool \<times> bool) action" where
  TimerBase_changePeriodFromISR_def [method_defs]: "TimerBase_changePeriodFromISR K this higherPriorityTaskWoken newPeriod w =
     (let taskWoken = pdFALSE;
          (r, w') = call K (KCall ''xTimerChangePeriodFromISR''
                              [V (handle this), V newPeriod, Addr ''taskWoken'' (Some taskWoken)]) w;
          taskWoken = stored taskWoken (woken_out r);
          result = (ret r = pdPASS)
      in ((result, if taskWoken = pdTRUE then True else higherPriorityTaskWoken), w'))"

definition TimerBase_changePeriodFromISR_NULL :: "('s, 'a) kernel \<Rightarrow> 'z TimerBase_scheme \<Rightarrow> TickType_t \<Rightarrow> ('s, 'a, bool) action" where
  TimerBase_changePeriodFromISR_NULL_def [method_defs]: "TimerBase_changePeriodFromISR_NULL K this newPeriod w =
     (let (r, w') = call K (KCall ''xTimerChangePeriodFromISR''
                              [V (handle this), V newPeriod, V NULL]) w
      in (ret r = pdPASS, w'))"

definition TimerBase_deleteTimer ::
  "('s, 'a) kernel \<Rightarrow> 'z TimerBase_scheme \<Rightarrow> TickType_t \<Rightarrow> ('s, 'a, bool \<times> 'z TimerBase_scheme) action" where
  TimerBase_deleteTimer_def [method_defs]: "TimerBase_deleteTimer K this blockTime w =
     (let (r, w') = call K (KCall ''xTimerDelete'' [V (handle this), V blockTime]) w
      in if ret r = pdPASS then ((True, this\<lparr>handle := NULL\<rparr>), w')
         else ((False, this), w'))"

definition TimerBase_reset :: "('s, 'a) kernel \<Rightarrow> 'z TimerBase_scheme \<Rightarrow> TickType_t \<Rightarrow> ('s, 'a, bool) action" where
  TimerBase_reset_def [method_defs]: "TimerBase_reset K this blockTime w =
     (let (r, w') = call K (KCall ''xTimerReset'' [V (handle this), V blockTime]) w
      in (ret r = pdPASS, w'))"

definition TimerBase_resetFromISR :: "('s, 'a) kernel \<Rightarrow> 'z TimerBase_scheme \<Rightarrow> bool \<Rightarrow> ('s, 'a, bool \<times> bool) action" where
  TimerBase_resetFromISR_def [method_defs]: "TimerBase_resetFromISR K this higherPriorityTaskWoken w =
     (let taskWoken = pdFALSE;
          (r, w') = call K (KCall ''xTimerResetFromISR''
                              [V (handle this), Addr ''taskWoken'' (Some taskWoken)]) w;
          taskWoken = stored taskWoken (woken_out r);
          result = (ret r = pdPASS)
      in ((result, if taskWoken = pdTRUE then True else higherPriorityTaskWoken), w'))"

definition TimerBase_resetFromISR_NULL :: "('s, 'a) kernel \<Rightarrow> 'z TimerBase_scheme \<Rightarrow> ('s, 'a, bool) action" where
  TimerBase_resetFromISR_NULL_def [method_defs]: "TimerBase_resetFromISR_NULL K this w =
     (let (r, w') = call K (KCall ''xTimerResetFromISR'' [V (handle this), V NULL]) w
      in (ret r = pdPASS, w'))"

definition TimerBase_setReloadMode :: "('s, 'a) kernel \<Rightarrow> 'z TimerBase_scheme \<Rightarrow> bool \<Rightarrow> ('s, 'a, unit) action" where
  TimerBase_setReloadMode_def [method_defs]: "TimerBase_setReloadMode K this autoReload w =
     (let (r, w') = call K (KCall ''vTimerSetReloadMode''
                              [V (handle this), V (if autoReload then pdTRUE else pdFALSE)]) w
      in ((), w'))"

definition TimerBase_getName :: "('s, 'a) kernel \<Rightarrow> 'z TimerBase_scheme \<Rightarrow> ('s, 'a, 32 word) action" where
  TimerBase_getName_def [method_defs]: "TimerBase_getName K this w =
     (let (r, w') = call K (KCall ''pcTimerGetName'' [V (handle this)]) w
      in (ret r, w'))"

definition TimerBase_getPeriod :: "('s, 'a) kernel \<Rightarrow> 'z TimerBase_scheme \<Rightarrow> ('s, 'a, TickType_t) action" where
  TimerBase_getPeriod_def [method_defs]: "TimerBase_getPeriod K this w =
     (let (r, w') = call K (KCall ''xTimerGetPeriod'' [V (handle this)]) w
      in (ret r, w'))"

definition TimerBase_getExpiryTime :: "('s, 'a) kernel \<Rightarrow> 'z TimerBase_scheme \<Rightarrow> ('s, 'a, TickType_t) action" where
  TimerBase_getExpiryTime_def [method_defs]: "TimerBase_getExpiryTime K this w =
     (let (r, w') = call K (KCall ''xTimerGetExpiryTime'' [V (handle this)]) w
      in (ret r, w'))"

definition TimerBase_getReloadMode :: "('s, 'a) kernel \<Rightarrow> 'z TimerBase_scheme \<Rightarrow> ('s, 'a, bool) action" where
  TimerBase_getReloadMode_def [method_defs]: "TimerBase_getReloadMode K this w =
     (let (r, w') = call K (KCall ''uxTimerGetReloadMode'' [V (handle this)]) w
      in (ret r = pdTRUE, w'))"


definition TimerBase_getDeleteBlockTime :: "'z TimerBase_scheme \<Rightarrow> TickType_t" where
  TimerBase_getDeleteBlockTime_def [method_defs]: "TimerBase_getDeleteBlockTime this = deleteBlockTime this"

text \<open>
  \<^verbatim>\<open>~TimerBase\<close> deletes the timer only while it is still valid, waiting for up to the stored
  block time.
\<close>

definition TimerBase_dtor :: "('s, 'a) kernel \<Rightarrow> 'z TimerBase_scheme \<Rightarrow> ('s, 'a, unit) action" where
  TimerBase_dtor_def [method_defs]: "TimerBase_dtor K this w =
     (if TimerBase_isValid this then
        (let (deleted, w') = TimerBase_deleteTimer K this (TimerBase_getDeleteBlockTime this) w
         in ((), w'))
      else ((), w))"

definition Timer_ctor ::
  "('s, 'a) kernel \<Rightarrow> 32 word \<Rightarrow> TickType_t \<Rightarrow> bool \<Rightarrow> string \<Rightarrow> TickType_t \<Rightarrow> ('s, 'a, TimerBase) action" where
  Timer_ctor_def [method_defs]: "Timer_ctor K addr period autoReload name deleteBlockTime' w =
     (let this = TimerBase_ctor deleteBlockTime';
          (r, w') = call K (KCall ''xTimerCreate''
                              [Name name, V period, V (if autoReload then pdTRUE else pdFALSE),
                               This addr, Fn ''callTimerFunction'']) w
      in (this\<lparr>handle := ret r\<rparr>, w'))"

definition StaticTimer_ctor ::
  "('s, 'a) kernel \<Rightarrow> 32 word \<Rightarrow> TickType_t \<Rightarrow> bool \<Rightarrow> string \<Rightarrow> TickType_t \<Rightarrow> ('s, 'a, TimerBase) action" where
  StaticTimer_ctor_def [method_defs]: "StaticTimer_ctor K addr period autoReload name deleteBlockTime' w =
     (let this = TimerBase_ctor deleteBlockTime';
          (r, w') = call K (KCall ''xTimerCreateStatic''
                              [Name name, V period, V (if autoReload then pdTRUE else pdFALSE),
                               This addr, Fn ''callTimerFunction'', Member addr ''staticTimer'']) w
      in (this\<lparr>handle := ret r\<rparr>, w'))"

section \<open>StreamBuffer.hpp\<close>

type_synonym StreamBufferBase = Wrapper

definition StreamBufferBase_ctor :: StreamBufferBase where
  StreamBufferBase_ctor_def [method_defs]: "StreamBufferBase_ctor = \<lparr>handle = NULL\<rparr>"


definition StreamBufferBase_send :: "('s, 'a) kernel \<Rightarrow> StreamBufferBase \<Rightarrow> 32 word \<Rightarrow> size_t \<Rightarrow> TickType_t \<Rightarrow> ('s, 'a, size_t) action" where
  StreamBufferBase_send_def [method_defs]: "StreamBufferBase_send K this data length' ticksToWait w =
     (let (r, w') = call K (KCall ''xStreamBufferSend''
                              [V (handle this), V data, V length', V ticksToWait]) w
      in (ret r, w'))"

definition StreamBufferBase_sendFromISR :: "('s, 'a) kernel \<Rightarrow> StreamBufferBase \<Rightarrow> bool \<Rightarrow> 32 word \<Rightarrow> size_t \<Rightarrow> ('s, 'a, size_t \<times> bool) action" where
  StreamBufferBase_sendFromISR_def [method_defs]: "StreamBufferBase_sendFromISR K this higherPriorityTaskWoken data length' w =
     (let taskWoken = pdFALSE;
          (r, w') = call K (KCall ''xStreamBufferSendFromISR''
                              [V (handle this), V data, V length', Addr ''taskWoken'' (Some taskWoken)]) w;
          taskWoken = stored taskWoken (woken_out r);
          result = (ret r)
      in ((result, if taskWoken = pdTRUE then True else higherPriorityTaskWoken), w'))"

definition StreamBufferBase_sendFromISR_NULL :: "('s, 'a) kernel \<Rightarrow> StreamBufferBase \<Rightarrow> 32 word \<Rightarrow> size_t \<Rightarrow> ('s, 'a, size_t) action" where
  StreamBufferBase_sendFromISR_NULL_def [method_defs]: "StreamBufferBase_sendFromISR_NULL K this data length' w =
     (let (r, w') = call K (KCall ''xStreamBufferSendFromISR''
                              [V (handle this), V data, V length', V NULL]) w
      in (ret r, w'))"

definition StreamBufferBase_receive :: "('s, 'a) kernel \<Rightarrow> StreamBufferBase \<Rightarrow> 32 word \<Rightarrow> size_t \<Rightarrow> TickType_t \<Rightarrow> ('s, 'a, size_t) action" where
  StreamBufferBase_receive_def [method_defs]: "StreamBufferBase_receive K this buffer bufferLength ticksToWait w =
     (let (r, w') = call K (KCall ''xStreamBufferReceive''
                              [V (handle this), V buffer, V bufferLength, V ticksToWait]) w
      in (ret r, w'))"

definition StreamBufferBase_receiveFromISR :: "('s, 'a) kernel \<Rightarrow> StreamBufferBase \<Rightarrow> bool \<Rightarrow> 32 word \<Rightarrow> size_t \<Rightarrow> ('s, 'a, size_t \<times> bool) action" where
  StreamBufferBase_receiveFromISR_def [method_defs]: "StreamBufferBase_receiveFromISR K this higherPriorityTaskWoken buffer bufferLength w =
     (let taskWoken = pdFALSE;
          (r, w') = call K (KCall ''xStreamBufferReceiveFromISR''
                              [V (handle this), V buffer, V bufferLength, Addr ''taskWoken'' (Some taskWoken)]) w;
          taskWoken = stored taskWoken (woken_out r);
          result = (ret r)
      in ((result, if taskWoken = pdTRUE then True else higherPriorityTaskWoken), w'))"

definition StreamBufferBase_receiveFromISR_NULL :: "('s, 'a) kernel \<Rightarrow> StreamBufferBase \<Rightarrow> 32 word \<Rightarrow> size_t \<Rightarrow> ('s, 'a, size_t) action" where
  StreamBufferBase_receiveFromISR_NULL_def [method_defs]: "StreamBufferBase_receiveFromISR_NULL K this buffer bufferLength w =
     (let (r, w') = call K (KCall ''xStreamBufferReceiveFromISR''
                              [V (handle this), V buffer, V bufferLength, V NULL]) w
      in (ret r, w'))"

definition StreamBufferBase_bytesAvailable :: "('s, 'a) kernel \<Rightarrow> StreamBufferBase \<Rightarrow> ('s, 'a, size_t) action" where
  StreamBufferBase_bytesAvailable_def [method_defs]: "StreamBufferBase_bytesAvailable K this w =
     (let (r, w') = call K (KCall ''xStreamBufferBytesAvailable'' [V (handle this)]) w
      in (ret r, w'))"

definition StreamBufferBase_spacesAvailable :: "('s, 'a) kernel \<Rightarrow> StreamBufferBase \<Rightarrow> ('s, 'a, size_t) action" where
  StreamBufferBase_spacesAvailable_def [method_defs]: "StreamBufferBase_spacesAvailable K this w =
     (let (r, w') = call K (KCall ''xStreamBufferSpacesAvailable'' [V (handle this)]) w
      in (ret r, w'))"

definition StreamBufferBase_setTriggerLevel :: "('s, 'a) kernel \<Rightarrow> StreamBufferBase \<Rightarrow> size_t \<Rightarrow> ('s, 'a, bool) action" where
  StreamBufferBase_setTriggerLevel_def [method_defs]: "StreamBufferBase_setTriggerLevel K this triggerLevel w =
     (let (r, w') = call K (KCall ''xStreamBufferSetTriggerLevel''
                              [V (handle this), V triggerLevel]) w
      in (ret r = pdTRUE, w'))"

definition StreamBufferBase_reset :: "('s, 'a) kernel \<Rightarrow> StreamBufferBase \<Rightarrow> ('s, 'a, bool) action" where
  StreamBufferBase_reset_def [method_defs]: "StreamBufferBase_reset K this w =
     (let (r, w') = call K (KCall ''xStreamBufferReset'' [V (handle this)]) w
      in (ret r = pdPASS, w'))"

definition StreamBufferBase_isEmpty :: "('s, 'a) kernel \<Rightarrow> StreamBufferBase \<Rightarrow> ('s, 'a, bool) action" where
  StreamBufferBase_isEmpty_def [method_defs]: "StreamBufferBase_isEmpty K this w =
     (let (r, w') = call K (KCall ''xStreamBufferIsEmpty'' [V (handle this)]) w
      in (ret r = pdTRUE, w'))"

definition StreamBufferBase_isFull :: "('s, 'a) kernel \<Rightarrow> StreamBufferBase \<Rightarrow> ('s, 'a, bool) action" where
  StreamBufferBase_isFull_def [method_defs]: "StreamBufferBase_isFull K this w =
     (let (r, w') = call K (KCall ''xStreamBufferIsFull'' [V (handle this)]) w
      in (ret r = pdTRUE, w'))"

definition StreamBufferBase_dtor :: "('s, 'a) kernel \<Rightarrow> StreamBufferBase \<Rightarrow> ('s, 'a, unit) action" where
  StreamBufferBase_dtor_def [method_defs]: "StreamBufferBase_dtor K this w =
     (let (r, w') = call K (KCall ''vStreamBufferDelete'' [V (handle this)]) w
      in ((), w'))"

text \<open>
  \<^verbatim>\<open>StaticStreamBuffer<N>\<close> holds \<^verbatim>\<open>uint8_t storage[N]\<close>, so \<^verbatim>\<open>sizeof(storage)\<close> is \<open>N\<close>.
\<close>

definition StreamBuffer_ctor :: "('s, 'a) kernel \<Rightarrow> size_t \<Rightarrow> size_t \<Rightarrow> ('s, 'a, StreamBufferBase) action" where
  StreamBuffer_ctor_def [method_defs]: "StreamBuffer_ctor K size' triggerLevel w =
     (let this = StreamBufferBase_ctor;
          (r, w') = call K (KCall ''xStreamBufferCreate'' [V size', V triggerLevel]) w
      in (this\<lparr>handle := ret r\<rparr>, w'))"

definition StaticStreamBuffer_ctor ::
  "('s, 'a) kernel \<Rightarrow> nat \<Rightarrow> 32 word \<Rightarrow> size_t \<Rightarrow> ('s, 'a, StreamBufferBase) action" where
  StaticStreamBuffer_ctor_def [method_defs]: "StaticStreamBuffer_ctor K N addr triggerLevel w =
     (let this = StreamBufferBase_ctor;
          (r, w') = call K (KCall ''xStreamBufferCreateStatic''
                              [V (of_nat N), V triggerLevel, Member addr ''storage'',
                               Member addr ''staticStreamBuffer'']) w
      in (this\<lparr>handle := ret r\<rparr>, w'))"

section \<open>MessageBuffer.hpp\<close>

type_synonym MessageBufferBase = Wrapper

definition MessageBufferBase_ctor :: MessageBufferBase where
  MessageBufferBase_ctor_def [method_defs]: "MessageBufferBase_ctor = \<lparr>handle = NULL\<rparr>"


definition MessageBufferBase_send :: "('s, 'a) kernel \<Rightarrow> MessageBufferBase \<Rightarrow> 32 word \<Rightarrow> size_t \<Rightarrow> TickType_t \<Rightarrow> ('s, 'a, size_t) action" where
  MessageBufferBase_send_def [method_defs]: "MessageBufferBase_send K this data length' ticksToWait w =
     (let (r, w') = call K (KCall ''xMessageBufferSend''
                              [V (handle this), V data, V length', V ticksToWait]) w
      in (ret r, w'))"

definition MessageBufferBase_sendFromISR :: "('s, 'a) kernel \<Rightarrow> MessageBufferBase \<Rightarrow> bool \<Rightarrow> 32 word \<Rightarrow> size_t \<Rightarrow> ('s, 'a, size_t \<times> bool) action" where
  MessageBufferBase_sendFromISR_def [method_defs]: "MessageBufferBase_sendFromISR K this higherPriorityTaskWoken data length' w =
     (let taskWoken = pdFALSE;
          (r, w') = call K (KCall ''xMessageBufferSendFromISR''
                              [V (handle this), V data, V length', Addr ''taskWoken'' (Some taskWoken)]) w;
          taskWoken = stored taskWoken (woken_out r);
          result = (ret r)
      in ((result, if taskWoken = pdTRUE then True else higherPriorityTaskWoken), w'))"

definition MessageBufferBase_sendFromISR_NULL :: "('s, 'a) kernel \<Rightarrow> MessageBufferBase \<Rightarrow> 32 word \<Rightarrow> size_t \<Rightarrow> ('s, 'a, size_t) action" where
  MessageBufferBase_sendFromISR_NULL_def [method_defs]: "MessageBufferBase_sendFromISR_NULL K this data length' w =
     (let (r, w') = call K (KCall ''xMessageBufferSendFromISR''
                              [V (handle this), V data, V length', V NULL]) w
      in (ret r, w'))"

definition MessageBufferBase_receive :: "('s, 'a) kernel \<Rightarrow> MessageBufferBase \<Rightarrow> 32 word \<Rightarrow> size_t \<Rightarrow> TickType_t \<Rightarrow> ('s, 'a, size_t) action" where
  MessageBufferBase_receive_def [method_defs]: "MessageBufferBase_receive K this buffer bufferLength ticksToWait w =
     (let (r, w') = call K (KCall ''xMessageBufferReceive''
                              [V (handle this), V buffer, V bufferLength, V ticksToWait]) w
      in (ret r, w'))"

definition MessageBufferBase_receiveFromISR :: "('s, 'a) kernel \<Rightarrow> MessageBufferBase \<Rightarrow> bool \<Rightarrow> 32 word \<Rightarrow> size_t \<Rightarrow> ('s, 'a, size_t \<times> bool) action" where
  MessageBufferBase_receiveFromISR_def [method_defs]: "MessageBufferBase_receiveFromISR K this higherPriorityTaskWoken buffer bufferLength w =
     (let taskWoken = pdFALSE;
          (r, w') = call K (KCall ''xMessageBufferReceiveFromISR''
                              [V (handle this), V buffer, V bufferLength, Addr ''taskWoken'' (Some taskWoken)]) w;
          taskWoken = stored taskWoken (woken_out r);
          result = (ret r)
      in ((result, if taskWoken = pdTRUE then True else higherPriorityTaskWoken), w'))"

definition MessageBufferBase_receiveFromISR_NULL :: "('s, 'a) kernel \<Rightarrow> MessageBufferBase \<Rightarrow> 32 word \<Rightarrow> size_t \<Rightarrow> ('s, 'a, size_t) action" where
  MessageBufferBase_receiveFromISR_NULL_def [method_defs]: "MessageBufferBase_receiveFromISR_NULL K this buffer bufferLength w =
     (let (r, w') = call K (KCall ''xMessageBufferReceiveFromISR''
                              [V (handle this), V buffer, V bufferLength, V NULL]) w
      in (ret r, w'))"

definition MessageBufferBase_spacesAvailable :: "('s, 'a) kernel \<Rightarrow> MessageBufferBase \<Rightarrow> ('s, 'a, size_t) action" where
  MessageBufferBase_spacesAvailable_def [method_defs]: "MessageBufferBase_spacesAvailable K this w =
     (let (r, w') = call K (KCall ''xMessageBufferSpacesAvailable'' [V (handle this)]) w
      in (ret r, w'))"

definition MessageBufferBase_reset :: "('s, 'a) kernel \<Rightarrow> MessageBufferBase \<Rightarrow> ('s, 'a, bool) action" where
  MessageBufferBase_reset_def [method_defs]: "MessageBufferBase_reset K this w =
     (let (r, w') = call K (KCall ''xMessageBufferReset'' [V (handle this)]) w
      in (ret r = pdPASS, w'))"

definition MessageBufferBase_isEmpty :: "('s, 'a) kernel \<Rightarrow> MessageBufferBase \<Rightarrow> ('s, 'a, bool) action" where
  MessageBufferBase_isEmpty_def [method_defs]: "MessageBufferBase_isEmpty K this w =
     (let (r, w') = call K (KCall ''xMessageBufferIsEmpty'' [V (handle this)]) w
      in (ret r = pdTRUE, w'))"

definition MessageBufferBase_isFull :: "('s, 'a) kernel \<Rightarrow> MessageBufferBase \<Rightarrow> ('s, 'a, bool) action" where
  MessageBufferBase_isFull_def [method_defs]: "MessageBufferBase_isFull K this w =
     (let (r, w') = call K (KCall ''xMessageBufferIsFull'' [V (handle this)]) w
      in (ret r = pdTRUE, w'))"

definition MessageBufferBase_dtor :: "('s, 'a) kernel \<Rightarrow> MessageBufferBase \<Rightarrow> ('s, 'a, unit) action" where
  MessageBufferBase_dtor_def [method_defs]: "MessageBufferBase_dtor K this w =
     (let (r, w') = call K (KCall ''vMessageBufferDelete'' [V (handle this)]) w
      in ((), w'))"

text \<open>
  \<^verbatim>\<open>StaticMessageBuffer<N>\<close> holds \<^verbatim>\<open>uint8_t storage[N]\<close>, so \<^verbatim>\<open>sizeof(storage)\<close> is \<open>N\<close>.
\<close>

definition MessageBuffer_ctor :: "('s, 'a) kernel \<Rightarrow> size_t \<Rightarrow> ('s, 'a, MessageBufferBase) action" where
  MessageBuffer_ctor_def [method_defs]: "MessageBuffer_ctor K size' w =
     (let this = MessageBufferBase_ctor;
          (r, w') = call K (KCall ''xMessageBufferCreate'' [V size']) w
      in (this\<lparr>handle := ret r\<rparr>, w'))"

definition StaticMessageBuffer_ctor ::
  "('s, 'a) kernel \<Rightarrow> nat \<Rightarrow> 32 word \<Rightarrow> ('s, 'a, MessageBufferBase) action" where
  StaticMessageBuffer_ctor_def [method_defs]: "StaticMessageBuffer_ctor K N addr w =
     (let this = MessageBufferBase_ctor;
          (r, w') = call K (KCall ''xMessageBufferCreateStatic''
                              [V (of_nat N), Member addr ''storage'',
                               Member addr ''staticMessageBuffer'']) w
      in (this\<lparr>handle := ret r\<rparr>, w'))"

section \<open>Placement new and the defaulted move operations\<close>












































































section \<open>The statically allocated variants as declared\<close>

text \<open>
  The ten classes the headers compile under \<^verbatim>\<open>configSUPPORT_STATIC_ALLOCATION == 1\<close>. A value of
  \<open>static_class\<close> is one such class at given template arguments: \<^verbatim>\<open>StaticTask<N>\<close>,
  \<^verbatim>\<open>StaticQueue<T, N>\<close> (with \<^verbatim>\<open>sizeof(T)\<close> standing for \<open>T\<close>), \<^verbatim>\<open>StaticStreamBuffer<N>\<close> and
  \<^verbatim>\<open>StaticMessageBuffer<N>\<close> are declared with a \<^verbatim>\<open>template <...>\<close> head; the other six are
  declared as plain classes. \<open>template_parameters\<close> is the declared parameter list and
  \<open>data_members\<close> the data members the class adds to its base, in declaration order: a kernel
  control block, or an array with its extent. \<open>create_static\<close> is the kernel function the
  constructor calls.
\<close>

datatype static_class =
    StaticTask nat
  | StaticQueue nat nat
  | StaticTimer
  | StaticMutex
  | StaticRecursiveMutex
  | StaticEventGroup
  | StaticBinarySemaphore
  | StaticCountingSemaphore
  | StaticStreamBuffer nat
  | StaticMessageBuffer nat

datatype member_type = Struct string | Array string nat


fun data_members :: "static_class \<Rightarrow> (string \<times> member_type) list" where
  "data_members (StaticTask N) =
     [(''taskBuffer'', Struct ''StaticTask_t''), (''stack'', Array ''StackType_t'' N)]"
| "data_members (StaticQueue sizeof_T N) =
     [(''staticQueue'', Struct ''StaticQueue_t''), (''storage'', Array ''uint8_t'' (N * sizeof_T))]"
| "data_members StaticTimer = [(''staticTimer'', Struct ''StaticTimer_t'')]"
| "data_members StaticMutex = [(''staticMutex'', Struct ''StaticSemaphore_t'')]"
| "data_members StaticRecursiveMutex = [(''staticRecursiveMutex'', Struct ''StaticSemaphore_t'')]"
| "data_members StaticEventGroup = [(''staticEventGroup'', Struct ''StaticEventGroup_t'')]"
| "data_members StaticBinarySemaphore = [(''staticBinarySemaphore'', Struct ''StaticSemaphore_t'')]"
| "data_members StaticCountingSemaphore =
     [(''staticCountingSemaphore'', Struct ''StaticSemaphore_t'')]"
| "data_members (StaticStreamBuffer N) =
     [(''staticStreamBuffer'', Struct ''StaticStreamBuffer_t''), (''storage'', Array ''uint8_t'' N)]"
| "data_members (StaticMessageBuffer N) =
     [(''staticMessageBuffer'', Struct ''StaticMessageBuffer_t''), (''storage'', Array ''uint8_t'' N)]"

fun create_static :: "static_class \<Rightarrow> string" where
  "create_static (StaticTask N) = ''xTaskCreateStatic''"
| "create_static (StaticQueue sizeof_T N) = ''xQueueCreateStatic''"
| "create_static StaticTimer = ''xTimerCreateStatic''"
| "create_static StaticMutex = ''xSemaphoreCreateMutexStatic''"
| "create_static StaticRecursiveMutex = ''xSemaphoreCreateRecursiveMutexStatic''"
| "create_static StaticEventGroup = ''xEventGroupCreateStatic''"
| "create_static StaticBinarySemaphore = ''xSemaphoreCreateBinaryStatic''"
| "create_static StaticCountingSemaphore = ''xSemaphoreCreateCountingStatic''"
| "create_static (StaticStreamBuffer N) = ''xStreamBufferCreateStatic''"
| "create_static (StaticMessageBuffer N) = ''xMessageBufferCreateStatic''"



text \<open>
  The arguments of a call that point at a data member of an object, and the name of the
  function called.
\<close>

fun member_args :: "'a arg list \<Rightarrow> (32 word \<times> string) list" where
  "member_args [] = []"
| "member_args (Member a n # as) = (a, n) # member_args as"
| "member_args (x # as) = member_args as"

fun kcall_name :: "'a kcall \<Rightarrow> string" where
  "kcall_name (KCall f as) = f"

fun kcall_args :: "'a kcall \<Rightarrow> 'a arg list" where
  "kcall_args (KCall f as) = as"

text \<open>
  The create functions called by the classes compiled under
  \<^verbatim>\<open>configSUPPORT_DYNAMIC_ALLOCATION == 1\<close>, whose storage the kernel takes from its heap.
\<close>

definition create_dynamic :: "string list" where
  "create_dynamic =
     [''xSemaphoreCreateMutex'', ''xSemaphoreCreateRecursiveMutex'', ''xEventGroupCreate'',
      ''xSemaphoreCreateBinary'', ''xSemaphoreCreateCounting'', ''xQueueCreate'', ''xTaskCreate'',
      ''xTimerCreate'', ''xStreamBufferCreate'', ''xMessageBufferCreate'']"

text \<open>
  \<open>own_storage cls addr c\<close>: the call \<open>c\<close> is to the static create function of \<open>cls\<close>, which
  is none of the heap-backed ones, and the data members of the object at \<open>addr\<close> it points at
  are all those the class declares.
\<close>

definition own_storage :: "static_class \<Rightarrow> 32 word \<Rightarrow> 'a kcall \<Rightarrow> bool" where
  "own_storage cls addr c =
     (kcall_name c = create_static cls
      \<and> kcall_name c \<notin> set create_dynamic
      \<and> set (member_args (kcall_args c)) = set (map (\<lambda>m. (addr, fst m)) (data_members cls)))"

section \<open>Sequences of interrupt-side calls sharing one flag\<close>

text \<open>
  One value of \<open>isr_call\<close> is one call of a method that takes \<^verbatim>\<open>bool& higherPriorityTaskWoken\<close>,
  with its object and its other arguments. \<open>isr_step\<close> runs the call on the shared flag and
  \<open>isr_run\<close> runs a sequence of calls, each on the flag the previous one left.
\<close>

datatype 'a isr_call =
    Mutex_lockFromISR MutexBase
  | EventGroup_setFromISR EventGroupBase EventBits_t
  | Semaphore_takeFromISR SemaphoreBase
  | Semaphore_giveFromISR SemaphoreBase
  | Queue_sendToBackFromISR QueueBase 'a
  | Queue_sendToFrontFromISR QueueBase 'a
  | Queue_receiveFromISR QueueBase 'a
  | Queue_overwriteFromISR QueueBase 'a
  | Task_notifyGiveFromISR TaskBase UBaseType_t
  | Task_notifyAndQueryFromISR TaskBase uint32_t "32 word" NotificationBits_t UBaseType_t
  | Task_notifyFromISR TaskBase "32 word" NotificationBits_t UBaseType_t
  | Timer_startFromISR TimerBase
  | Timer_stopFromISR TimerBase
  | Timer_changePeriodFromISR TimerBase TickType_t
  | Timer_resetFromISR TimerBase
  | StreamBuffer_sendFromISR StreamBufferBase "32 word" size_t
  | StreamBuffer_receiveFromISR StreamBufferBase "32 word" size_t
  | MessageBuffer_sendFromISR MessageBufferBase "32 word" size_t
  | MessageBuffer_receiveFromISR MessageBufferBase "32 word" size_t

fun isr_step :: "('s, 'a) kernel \<Rightarrow> 'a isr_call \<Rightarrow> bool \<Rightarrow> ('s, 'a, bool) action" where
  "isr_step K (Mutex_lockFromISR this) flag w =
     (let ((result, flag'), w') = MutexBase_lockFromISR K this flag w in (flag', w'))"
| "isr_step K (EventGroup_setFromISR this bitsToSet) flag w =
     (let ((result, flag'), w') = EventGroupBase_setFromISR K this flag bitsToSet w in (flag', w'))"
| "isr_step K (Semaphore_takeFromISR this) flag w =
     (let ((result, flag'), w') = SemaphoreBase_takeFromISR K this flag w in (flag', w'))"
| "isr_step K (Semaphore_giveFromISR this) flag w =
     (let ((result, flag'), w') = SemaphoreBase_giveFromISR K this flag w in (flag', w'))"
| "isr_step K (Queue_sendToBackFromISR this item) flag w =
     (let ((result, flag'), w') = QueueBase_sendToBackFromISR K this flag item w in (flag', w'))"
| "isr_step K (Queue_sendToFrontFromISR this item) flag w =
     (let ((result, flag'), w') = QueueBase_sendToFrontFromISR K this flag item w in (flag', w'))"
| "isr_step K (Queue_receiveFromISR this buffer) flag w =
     (let ((result, flag'), w') = QueueBase_receiveFromISR K this buffer flag w in (flag', w'))"
| "isr_step K (Queue_overwriteFromISR this item) flag w =
     (let ((result, flag'), w') = QueueBase_overwriteFromISR K this flag item w in (flag', w'))"
| "isr_step K (Task_notifyGiveFromISR this index) flag w =
     (let ((result, flag'), w') = TaskBase_notifyGiveFromISR K this flag index w in (flag', w'))"
| "isr_step K (Task_notifyAndQueryFromISR this pulNotificationValue action value index) flag w =
     (let ((result, flag'), w') =
            TaskBase_notifyAndQueryFromISR K this pulNotificationValue flag action value index w
      in (flag', w'))"
| "isr_step K (Task_notifyFromISR this action value index) flag w =
     (let ((result, flag'), w') = TaskBase_notifyFromISR K this flag action value index w
      in (flag', w'))"
| "isr_step K (Timer_startFromISR this) flag w =
     (let ((result, flag'), w') = TimerBase_startFromISR K this flag w in (flag', w'))"
| "isr_step K (Timer_stopFromISR this) flag w =
     (let ((result, flag'), w') = TimerBase_stopFromISR K this flag w in (flag', w'))"
| "isr_step K (Timer_changePeriodFromISR this newPeriod) flag w =
     (let ((result, flag'), w') = TimerBase_changePeriodFromISR K this flag newPeriod w
      in (flag', w'))"
| "isr_step K (Timer_resetFromISR this) flag w =
     (let ((result, flag'), w') = TimerBase_resetFromISR K this flag w in (flag', w'))"
| "isr_step K (StreamBuffer_sendFromISR this data length') flag w =
     (let ((result, flag'), w') = StreamBufferBase_sendFromISR K this flag data length' w
      in (flag', w'))"
| "isr_step K (StreamBuffer_receiveFromISR this buffer bufferLength) flag w =
     (let ((result, flag'), w') = StreamBufferBase_receiveFromISR K this flag buffer bufferLength w
      in (flag', w'))"
| "isr_step K (MessageBuffer_sendFromISR this data length') flag w =
     (let ((result, flag'), w') = MessageBufferBase_sendFromISR K this flag data length' w
      in (flag', w'))"
| "isr_step K (MessageBuffer_receiveFromISR this buffer bufferLength) flag w =
     (let ((result, flag'), w') = MessageBufferBase_receiveFromISR K this flag buffer bufferLength w
      in (flag', w'))"

fun isr_run :: "('s, 'a) kernel \<Rightarrow> 'a isr_call list \<Rightarrow> bool \<Rightarrow> ('s, 'a, bool) action" where
  "isr_run K [] flag w = (flag, w)"
| "isr_run K (c # cs) flag w =
     (let (flag', w') = isr_step K c flag w in isr_run K cs flag' w')"

section \<open>A kernel to run the wrappers against\<close>

text \<open>
  \<open>replay\<close> is the kernel that answers from a script: its state is the list of responses still
  to give, and each call takes the next one. \<open>answers v\<close> is the response that returns \<open>v\<close>
  and stores nothing, \<open>silent\<close> the one that returns 0. Once the script is used up the kernel
  stays silent.
\<close>

definition answers :: "32 word \<Rightarrow> 'a kresp" where
  "answers v = \<lparr>ret = v, woken_out = None, value_out = None, item_out = None\<rparr>"

definition silent :: "'a kresp" where
  "silent = answers 0"

definition replay :: "('a kresp list, 'a) kernel" where
  "replay c script = (case script of [] \<Rightarrow> (silent, []) | r # rest \<Rightarrow> (r, rest))"

definition start :: "'s \<Rightarrow> ('s, 'a) world" where
  "start s = \<lparr>kstate = s, trace = []\<rparr>"

section \<open>A periodic task body\<close>



section \<open>How a call shows in the world\<close>

lemma call_eq: "call K c w = (resp K c w, after K c w)"
  by (simp add: call_def resp_def after_def split: prod.splits)

lemma trace_after: "trace (after K c w) = trace w @ [(c, resp K c w)]"
  by (simp add: after_def)

lemma calls_after: "calls w (after K c w) = [(c, resp K c w)]"
  by (simp add: calls_def trace_after)

lemma calls_none: "calls w w = []"
  by (simp add: calls_def)

lemma truth_values: "pdFALSE \<noteq> pdTRUE" "pdPASS = pdTRUE" "stored x None = x" "stored x (Some y) = y"
  by (simp_all add: pdFALSE_def pdTRUE_def pdPASS_def stored_def)

lemma replay_resp: "resp replay c (start (r # rs)) = r"
  by (simp add: resp_def replay_def start_def)

section \<open>Every method as one forwarded call\<close>

lemma MutexBase_forward:
  "MutexBase_lock K this ticksToWait =
     forward K (KCall ''xSemaphoreTake'' [V (handle this), V ticksToWait])
       (\<lambda>r. ret r = pdTRUE)"
  "MutexBase_lockFromISR K this higherPriorityTaskWoken =
     forward K (KCall ''xSemaphoreTakeFromISR'' [V (handle this), Addr ''taskWoken'' (Some pdFALSE)])
       (\<lambda>r. (ret r = pdTRUE, higherPriorityTaskWoken \<or> woken_out r = Some pdTRUE))"
  "MutexBase_lockFromISR_NULL K this =
     forward K (KCall ''xSemaphoreTakeFromISR'' [V (handle this), V NULL])
       (\<lambda>r. ret r = pdTRUE)"
  "MutexBase_unlock K this =
     forward K (KCall ''xSemaphoreGive'' [V (handle this)])
       (\<lambda>r. ret r = pdTRUE)"
  "MutexBase_dtor K this =
     forward K (KCall ''vSemaphoreDelete'' [V (handle this)])
       (\<lambda>r. ())"
  by (rule ext, auto simp add: method_defs call_eq forward_def Let_def stored_def truth_values split: option.splits)+

lemma RecursiveMutexBase_forward:
  "RecursiveMutexBase_lock K this ticksToWait =
     forward K (KCall ''xSemaphoreTakeRecursive'' [V (handle this), V ticksToWait])
       (\<lambda>r. ret r = pdTRUE)"
  "RecursiveMutexBase_unlock K this =
     forward K (KCall ''xSemaphoreGiveRecursive'' [V (handle this)])
       (\<lambda>r. ret r = pdTRUE)"
  by (rule ext, auto simp add: method_defs call_eq forward_def Let_def stored_def truth_values split: option.splits)+

lemma EventGroupBase_forward:
  "EventGroupBase_wait K this bitsToWaitFor clearOnExit waitForAllBits ticksToWait =
     forward K (KCall ''xEventGroupWaitBits'' [V (handle this), V (to_ulong bitsToWaitFor), V (if clearOnExit then pdTRUE else pdFALSE), V (if waitForAllBits then pdTRUE else pdFALSE), V ticksToWait])
       (\<lambda>r. EventBits (ret r))"
  "EventGroupBase_set K this bitsToSet =
     forward K (KCall ''xEventGroupSetBits'' [V (handle this), V (to_ulong bitsToSet)])
       (\<lambda>r. EventBits (ret r))"
  "EventGroupBase_setFromISR K this higherPriorityTaskWoken bitsToSet =
     forward K (KCall ''xEventGroupSetBitsFromISR'' [V (handle this), V (to_ulong bitsToSet), Addr ''taskWoken'' (Some pdFALSE)])
       (\<lambda>r. (ret r = pdPASS, higherPriorityTaskWoken \<or> woken_out r = Some pdTRUE))"
  "EventGroupBase_setFromISR_NULL K this bitsToSet =
     forward K (KCall ''xEventGroupSetBitsFromISR'' [V (handle this), V (to_ulong bitsToSet), V NULL])
       (\<lambda>r. ret r = pdPASS)"
  "EventGroupBase_clear K this bitsToClear =
     forward K (KCall ''xEventGroupClearBits'' [V (handle this), V (to_ulong bitsToClear)])
       (\<lambda>r. EventBits (ret r))"
  "EventGroupBase_clearFromISR K this bitsToClear =
     forward K (KCall ''xEventGroupClearBitsFromISR'' [V (handle this), V (to_ulong bitsToClear)])
       (\<lambda>r. ret r = pdPASS)"
  "EventGroupBase_get K this =
     forward K (KCall ''xEventGroupGetBits'' [V (handle this)])
       (\<lambda>r. EventBits (ret r))"
  "EventGroupBase_getFromISR K this =
     forward K (KCall ''xEventGroupGetBitsFromISR'' [V (handle this)])
       (\<lambda>r. EventBits (ret r))"
  "EventGroupBase_sync K this bitsToSet bitsToWaitFor ticksToWait =
     forward K (KCall ''xEventGroupSync'' [V (handle this), V (to_ulong bitsToSet), V (to_ulong bitsToWaitFor), V ticksToWait])
       (\<lambda>r. EventBits (ret r))"
  "EventGroupBase_dtor K this =
     forward K (KCall ''vEventGroupDelete'' [V (handle this)])
       (\<lambda>r. ())"
  by (rule ext, auto simp add: method_defs call_eq forward_def Let_def stored_def truth_values split: option.splits)+

lemma SemaphoreBase_forward:
  "SemaphoreBase_getCount K this =
     forward K (KCall ''uxSemaphoreGetCount'' [V (handle this)])
       (\<lambda>r. ret r)"
  "SemaphoreBase_take K this ticksToWait =
     forward K (KCall ''xSemaphoreTake'' [V (handle this), V ticksToWait])
       (\<lambda>r. ret r = pdTRUE)"
  "SemaphoreBase_takeFromISR K this higherPriorityTaskWoken =
     forward K (KCall ''xSemaphoreTakeFromISR'' [V (handle this), Addr ''taskWoken'' (Some pdFALSE)])
       (\<lambda>r. (ret r = pdTRUE, higherPriorityTaskWoken \<or> woken_out r = Some pdTRUE))"
  "SemaphoreBase_takeFromISR_NULL K this =
     forward K (KCall ''xSemaphoreTakeFromISR'' [V (handle this), V NULL])
       (\<lambda>r. ret r = pdTRUE)"
  "SemaphoreBase_give K this =
     forward K (KCall ''xSemaphoreGive'' [V (handle this)])
       (\<lambda>r. ret r = pdTRUE)"
  "SemaphoreBase_giveFromISR K this higherPriorityTaskWoken =
     forward K (KCall ''xSemaphoreGiveFromISR'' [V (handle this), Addr ''taskWoken'' (Some pdFALSE)])
       (\<lambda>r. (ret r = pdTRUE, higherPriorityTaskWoken \<or> woken_out r = Some pdTRUE))"
  "SemaphoreBase_giveFromISR_NULL K this =
     forward K (KCall ''xSemaphoreGiveFromISR'' [V (handle this), V NULL])
       (\<lambda>r. ret r = pdTRUE)"
  "SemaphoreBase_dtor K this =
     forward K (KCall ''vSemaphoreDelete'' [V (handle this)])
       (\<lambda>r. ())"
  by (rule ext, auto simp add: method_defs call_eq forward_def Let_def stored_def truth_values split: option.splits)+

lemma QueueBase_forward:
  "QueueBase_sendToBack K this item ticksToWait =
     forward K (KCall ''xQueueSendToBack'' [V (handle this), AddrItem item, V ticksToWait])
       (\<lambda>r. ret r = pdTRUE)"
  "QueueBase_sendToBackFromISR K this higherPriorityTaskWoken item =
     forward K (KCall ''xQueueSendToBackFromISR'' [V (handle this), AddrItem item, Addr ''taskWoken'' (Some pdFALSE)])
       (\<lambda>r. (ret r = pdPASS, higherPriorityTaskWoken \<or> woken_out r = Some pdTRUE))"
  "QueueBase_sendToBackFromISR_NULL K this item =
     forward K (KCall ''xQueueSendToBackFromISR'' [V (handle this), AddrItem item, V NULL])
       (\<lambda>r. ret r = pdPASS)"
  "QueueBase_sendToFront K this item ticksToWait =
     forward K (KCall ''xQueueSendToFront'' [V (handle this), AddrItem item, V ticksToWait])
       (\<lambda>r. ret r = pdTRUE)"
  "QueueBase_sendToFrontFromISR K this higherPriorityTaskWoken item =
     forward K (KCall ''xQueueSendToFrontFromISR'' [V (handle this), AddrItem item, Addr ''taskWoken'' (Some pdFALSE)])
       (\<lambda>r. (ret r = pdPASS, higherPriorityTaskWoken \<or> woken_out r = Some pdTRUE))"
  "QueueBase_sendToFrontFromISR_NULL K this item =
     forward K (KCall ''xQueueSendToFrontFromISR'' [V (handle this), AddrItem item, V NULL])
       (\<lambda>r. ret r = pdPASS)"
  "QueueBase_messagesWaiting K this =
     forward K (KCall ''uxQueueMessagesWaiting'' [V (handle this)])
       (\<lambda>r. ret r)"
  "QueueBase_messagesWaitingFromISR K this =
     forward K (KCall ''uxQueueMessagesWaitingFromISR'' [V (handle this)])
       (\<lambda>r. ret r)"
  "QueueBase_spacesAvailable K this =
     forward K (KCall ''uxQueueSpacesAvailable'' [V (handle this)])
       (\<lambda>r. ret r)"
  "QueueBase_reset K this =
     forward K (KCall ''xQueueReset'' [V (handle this)])
       (\<lambda>r. ())"
  "QueueBase_overwrite K this item =
     forward K (KCall ''xQueueOverwrite'' [V (handle this), AddrItem item])
       (\<lambda>r. ())"
  "QueueBase_overwriteFromISR_NULL K this item =
     forward K (KCall ''xQueueOverwriteFromISR'' [V (handle this), AddrItem item, V NULL])
       (\<lambda>r. ())"
  "QueueBase_addToRegistry K this name =
     forward K (KCall ''vQueueAddToRegistry'' [V (handle this), Name name])
       (\<lambda>r. ())"
  "QueueBase_unregister K this =
     forward K (KCall ''vQueueUnregisterQueue'' [V (handle this)])
       (\<lambda>r. ())"
  "QueueBase_getName K this =
     forward K (KCall ''pcQueueGetName'' [V (handle this)])
       (\<lambda>r. ret r)"
  "QueueBase_isFullFromISR K this =
     forward K (KCall ''xQueueIsQueueFullFromISR'' [V (handle this)])
       (\<lambda>r. ret r = pdTRUE)"
  "QueueBase_isEmptyFromISR K this =
     forward K (KCall ''xQueueIsQueueEmptyFromISR'' [V (handle this)])
       (\<lambda>r. ret r = pdTRUE)"
  "QueueBase_dtor K this =
     forward K (KCall ''vQueueDelete'' [V (handle this)])
       (\<lambda>r. ())"
  by (rule ext, auto simp add: method_defs call_eq forward_def Let_def stored_def truth_values split: option.splits)+

lemma Kernel_forward:
  "Kernel_getSchedulerState K =
     forward K (KCall ''xTaskGetSchedulerState'' [])
       (\<lambda>r. ret r)"
  "Kernel_getNumberOfTasks K =
     forward K (KCall ''uxTaskGetNumberOfTasks'' [])
       (\<lambda>r. ret r)"
  "Kernel_getIdleRunTimeCounter K =
     forward K (KCall ''xTaskGetIdleRunTimeCounter'' [])
       (\<lambda>r. ret r)"
  "Kernel_getTickCount K =
     forward K (KCall ''xTaskGetTickCount'' [])
       (\<lambda>r. ret r)"
  "Kernel_getTickCountFromISR K =
     forward K (KCall ''xTaskGetTickCountFromISR'' [])
       (\<lambda>r. ret r)"
  "Kernel_yield K =
     forward K (KCall ''taskYIELD'' [])
       (\<lambda>r. ())"
  "Kernel_enterCritical K =
     forward K (KCall ''taskENTER_CRITICAL'' [])
       (\<lambda>r. ())"
  "Kernel_enterCriticalFromISR K =
     forward K (KCall ''taskENTER_CRITICAL_FROM_ISR'' [])
       (\<lambda>r. ret r)"
  "Kernel_exitCritical K =
     forward K (KCall ''taskEXIT_CRITICAL'' [])
       (\<lambda>r. ())"
  "Kernel_exitCriticalFromISR K interruptStatus =
     forward K (KCall ''taskEXIT_CRITICAL_FROM_ISR'' [V interruptStatus])
       (\<lambda>r. ())"
  "Kernel_disableInterrupts K =
     forward K (KCall ''taskDISABLE_INTERRUPTS'' [])
       (\<lambda>r. ())"
  "Kernel_enableInterrupts K =
     forward K (KCall ''taskENABLE_INTERRUPTS'' [])
       (\<lambda>r. ())"
  "Kernel_startScheduler K =
     forward K (KCall ''vTaskStartScheduler'' [])
       (\<lambda>r. ())"
  "Kernel_endScheduler K =
     forward K (KCall ''vTaskEndScheduler'' [])
       (\<lambda>r. ())"
  "Kernel_suspendAll K =
     forward K (KCall ''vTaskSuspendAll'' [])
       (\<lambda>r. ())"
  "Kernel_resumeAll K =
     forward K (KCall ''xTaskResumeAll'' [])
       (\<lambda>r. ret r = pdTRUE)"
  "Kernel_stepTick K ticksToJump =
     forward K (KCall ''vTaskStepTick'' [V ticksToJump])
       (\<lambda>r. ())"
  "Kernel_catchUpTicks K ticksToCatchUp =
     forward K (KCall ''xTaskCatchUpTicks'' [V ticksToCatchUp])
       (\<lambda>r. ret r = pdTRUE)"
  by (rule ext, auto simp add: method_defs call_eq forward_def Let_def stored_def truth_values split: option.splits)+

lemma TaskBase_forward:
  "TaskBase_getPriority K this =
     forward K (KCall ''uxTaskPriorityGet'' [V (handle this)])
       (\<lambda>r. ret r)"
  "TaskBase_setPriority K this newPriority =
     forward K (KCall ''vTaskPrioritySet'' [V (handle this), V newPriority])
       (\<lambda>r. ())"
  "TaskBase_suspend K this =
     forward K (KCall ''vTaskSuspend'' [V (handle this)])
       (\<lambda>r. ())"
  "TaskBase_resume K this =
     forward K (KCall ''vTaskResume'' [V (handle this)])
       (\<lambda>r. ())"
  "TaskBase_resumeFromISR K this =
     forward K (KCall ''xTaskResumeFromISR'' [V (handle this)])
       (\<lambda>r. ret r = pdTRUE)"
  "TaskBase_abortDelay K this =
     forward K (KCall ''xTaskAbortDelay'' [V (handle this)])
       (\<lambda>r. ret r = pdPASS)"
  "TaskBase_getIdleHandle K =
     forward K (KCall ''xTaskGetIdleTaskHandle'' [])
       (\<lambda>r. ret r)"
  "TaskBase_getStackHighWaterMark K this =
     forward K (KCall ''uxTaskGetStackHighWaterMark'' [V (handle this)])
       (\<lambda>r. ret r)"
  "TaskBase_getStackHighWaterMark2 K this =
     forward K (KCall ''uxTaskGetStackHighWaterMark2'' [V (handle this)])
       (\<lambda>r. ret r)"
  "TaskBase_getState K this =
     forward K (KCall ''eTaskGetState'' [V (handle this)])
       (\<lambda>r. ret r)"
  "TaskBase_getName K this =
     forward K (KCall ''pcTaskGetName'' [V (handle this)])
       (\<lambda>r. ret r)"
  "TaskBase_getHandle K name =
     forward K (KCall ''xTaskGetHandle'' [Name name])
       (\<lambda>r. ret r)"
  "TaskBase_notifyGive K this index =
     forward K (KCall ''xTaskNotifyGiveIndexed'' [V (handle this), V index])
       (\<lambda>r. ())"
  "TaskBase_notifyGiveFromISR K this higherPriorityTaskWoken index =
     forward K (KCall ''vTaskNotifyGiveIndexedFromISR'' [V (handle this), V index, Addr ''taskWoken'' (Some pdFALSE)])
       (\<lambda>r. ((), higherPriorityTaskWoken \<or> woken_out r = Some pdTRUE))"
  "TaskBase_notifyGiveFromISR_NULL K this index =
     forward K (KCall ''vTaskNotifyGiveIndexedFromISR'' [V (handle this), V index, V NULL])
       (\<lambda>r. ())"
  "TaskBase_notify K this action value index =
     forward K (KCall ''xTaskNotifyIndexed'' [V (handle this), V index, V (to_ulong value), V action])
       (\<lambda>r. ret r = pdPASS)"
  "TaskBase_notifyFromISR K this higherPriorityTaskWoken action value index =
     forward K (KCall ''xTaskNotifyIndexedFromISR'' [V (handle this), V index, V (to_ulong value), V action, Addr ''taskWoken'' (Some pdFALSE)])
       (\<lambda>r. (ret r = pdPASS, higherPriorityTaskWoken \<or> woken_out r = Some pdTRUE))"
  "TaskBase_notifyFromISR_NULL K this action value index =
     forward K (KCall ''xTaskNotifyIndexedFromISR'' [V (handle this), V index, V (to_ulong value), V action, V NULL])
       (\<lambda>r. ret r = pdPASS)"
  "TaskBase_notifyStateClear K this index =
     forward K (KCall ''xTaskNotifyStateClearIndexed'' [V (handle this), V index])
       (\<lambda>r. ret r = pdTRUE)"
  "TaskBase_notifyValueClear K this bitsToClear index =
     forward K (KCall ''ulTaskNotifyValueClearIndexed'' [V (handle this), V index, V (to_ulong bitsToClear)])
       (\<lambda>r. NotificationBits (ret r))"
  "TaskBase_delay K ticksToDelay =
     forward K (KCall ''vTaskDelay'' [V ticksToDelay])
       (\<lambda>r. ())"
  "TaskBase_notifyTake K ticksToWait clearCountOnExit index =
     forward K (KCall ''ulTaskNotifyTakeIndexed'' [V index, V (if clearCountOnExit then 1 else 0), V ticksToWait])
       (\<lambda>r. NotificationBits (ret r))"
  by (rule ext, auto simp add: method_defs call_eq forward_def Let_def stored_def truth_values split: option.splits)+

lemma TimerBase_forward:
  "TimerBase_isActive K this =
     forward K (KCall ''xTimerIsTimerActive'' [V (handle this)])
       (\<lambda>r. ret r \<noteq> pdFALSE)"
  "TimerBase_start K this blockTime =
     forward K (KCall ''xTimerStart'' [V (handle this), V blockTime])
       (\<lambda>r. ret r = pdPASS)"
  "TimerBase_startFromISR K this higherPriorityTaskWoken =
     forward K (KCall ''xTimerStartFromISR'' [V (handle this), Addr ''taskWoken'' (Some pdFALSE)])
       (\<lambda>r. (ret r = pdPASS, higherPriorityTaskWoken \<or> woken_out r = Some pdTRUE))"
  "TimerBase_startFromISR_NULL K this =
     forward K (KCall ''xTimerStartFromISR'' [V (handle this), V NULL])
       (\<lambda>r. ret r = pdPASS)"
  "TimerBase_stop K this blockTime =
     forward K (KCall ''xTimerStop'' [V (handle this), V blockTime])
       (\<lambda>r. ret r = pdPASS)"
  "TimerBase_stopFromISR K this higherPriorityTaskWoken =
     forward K (KCall ''xTimerStopFromISR'' [V (handle this), Addr ''taskWoken'' (Some pdFALSE)])
       (\<lambda>r. (ret r = pdPASS, higherPriorityTaskWoken \<or> woken_out r = Some pdTRUE))"
  "TimerBase_stopFromISR_NULL K this =
     forward K (KCall ''xTimerStopFromISR'' [V (handle this), V NULL])
       (\<lambda>r. ret r = pdPASS)"
  "TimerBase_changePeriod K this newPeriod blockTime =
     forward K (KCall ''xTimerChangePeriod'' [V (handle this), V newPeriod, V blockTime])
       (\<lambda>r. ret r = pdPASS)"
  "TimerBase_changePeriodFromISR K this higherPriorityTaskWoken newPeriod =
     forward K (KCall ''xTimerChangePeriodFromISR'' [V (handle this), V newPeriod, Addr ''taskWoken'' (Some pdFALSE)])
       (\<lambda>r. (ret r = pdPASS, higherPriorityTaskWoken \<or> woken_out r = Some pdTRUE))"
  "TimerBase_changePeriodFromISR_NULL K this newPeriod =
     forward K (KCall ''xTimerChangePeriodFromISR'' [V (handle this), V newPeriod, V NULL])
       (\<lambda>r. ret r = pdPASS)"
  "TimerBase_reset K this blockTime =
     forward K (KCall ''xTimerReset'' [V (handle this), V blockTime])
       (\<lambda>r. ret r = pdPASS)"
  "TimerBase_resetFromISR K this higherPriorityTaskWoken =
     forward K (KCall ''xTimerResetFromISR'' [V (handle this), Addr ''taskWoken'' (Some pdFALSE)])
       (\<lambda>r. (ret r = pdPASS, higherPriorityTaskWoken \<or> woken_out r = Some pdTRUE))"
  "TimerBase_resetFromISR_NULL K this =
     forward K (KCall ''xTimerResetFromISR'' [V (handle this), V NULL])
       (\<lambda>r. ret r = pdPASS)"
  "TimerBase_setReloadMode K this autoReload =
     forward K (KCall ''vTimerSetReloadMode'' [V (handle this), V (if autoReload then pdTRUE else pdFALSE)])
       (\<lambda>r. ())"
  "TimerBase_getName K this =
     forward K (KCall ''pcTimerGetName'' [V (handle this)])
       (\<lambda>r. ret r)"
  "TimerBase_getPeriod K this =
     forward K (KCall ''xTimerGetPeriod'' [V (handle this)])
       (\<lambda>r. ret r)"
  "TimerBase_getExpiryTime K this =
     forward K (KCall ''xTimerGetExpiryTime'' [V (handle this)])
       (\<lambda>r. ret r)"
  "TimerBase_getReloadMode K this =
     forward K (KCall ''uxTimerGetReloadMode'' [V (handle this)])
       (\<lambda>r. ret r = pdTRUE)"
  by (rule ext, auto simp add: method_defs call_eq forward_def Let_def stored_def truth_values split: option.splits)+

lemma StreamBufferBase_forward:
  "StreamBufferBase_send K this data length' ticksToWait =
     forward K (KCall ''xStreamBufferSend'' [V (handle this), V data, V length', V ticksToWait])
       (\<lambda>r. ret r)"
  "StreamBufferBase_sendFromISR K this higherPriorityTaskWoken data length' =
     forward K (KCall ''xStreamBufferSendFromISR'' [V (handle this), V data, V length', Addr ''taskWoken'' (Some pdFALSE)])
       (\<lambda>r. (ret r, higherPriorityTaskWoken \<or> woken_out r = Some pdTRUE))"
  "StreamBufferBase_sendFromISR_NULL K this data length' =
     forward K (KCall ''xStreamBufferSendFromISR'' [V (handle this), V data, V length', V NULL])
       (\<lambda>r. ret r)"
  "StreamBufferBase_receive K this buffer bufferLength ticksToWait =
     forward K (KCall ''xStreamBufferReceive'' [V (handle this), V buffer, V bufferLength, V ticksToWait])
       (\<lambda>r. ret r)"
  "StreamBufferBase_receiveFromISR K this higherPriorityTaskWoken buffer bufferLength =
     forward K (KCall ''xStreamBufferReceiveFromISR'' [V (handle this), V buffer, V bufferLength, Addr ''taskWoken'' (Some pdFALSE)])
       (\<lambda>r. (ret r, higherPriorityTaskWoken \<or> woken_out r = Some pdTRUE))"
  "StreamBufferBase_receiveFromISR_NULL K this buffer bufferLength =
     forward K (KCall ''xStreamBufferReceiveFromISR'' [V (handle this), V buffer, V bufferLength, V NULL])
       (\<lambda>r. ret r)"
  "StreamBufferBase_bytesAvailable K this =
     forward K (KCall ''xStreamBufferBytesAvailable'' [V (handle this)])
       (\<lambda>r. ret r)"
  "StreamBufferBase_spacesAvailable K this =
     forward K (KCall ''xStreamBufferSpacesAvailable'' [V (handle this)])
       (\<lambda>r. ret r)"
  "StreamBufferBase_setTriggerLevel K this triggerLevel =
     forward K (KCall ''xStreamBufferSetTriggerLevel'' [V (handle this), V triggerLevel])
       (\<lambda>r. ret r = pdTRUE)"
  "StreamBufferBase_reset K this =
     forward K (KCall ''xStreamBufferReset'' [V (handle this)])
       (\<lambda>r. ret r = pdPASS)"
  "StreamBufferBase_isEmpty K this =
     forward K (KCall ''xStreamBufferIsEmpty'' [V (handle this)])
       (\<lambda>r. ret r = pdTRUE)"
  "StreamBufferBase_isFull K this =
     forward K (KCall ''xStreamBufferIsFull'' [V (handle this)])
       (\<lambda>r. ret r = pdTRUE)"
  "StreamBufferBase_dtor K this =
     forward K (KCall ''vStreamBufferDelete'' [V (handle this)])
       (\<lambda>r. ())"
  by (rule ext, auto simp add: method_defs call_eq forward_def Let_def stored_def truth_values split: option.splits)+

lemma MessageBufferBase_forward:
  "MessageBufferBase_send K this data length' ticksToWait =
     forward K (KCall ''xMessageBufferSend'' [V (handle this), V data, V length', V ticksToWait])
       (\<lambda>r. ret r)"
  "MessageBufferBase_sendFromISR K this higherPriorityTaskWoken data length' =
     forward K (KCall ''xMessageBufferSendFromISR'' [V (handle this), V data, V length', Addr ''taskWoken'' (Some pdFALSE)])
       (\<lambda>r. (ret r, higherPriorityTaskWoken \<or> woken_out r = Some pdTRUE))"
  "MessageBufferBase_sendFromISR_NULL K this data length' =
     forward K (KCall ''xMessageBufferSendFromISR'' [V (handle this), V data, V length', V NULL])
       (\<lambda>r. ret r)"
  "MessageBufferBase_receive K this buffer bufferLength ticksToWait =
     forward K (KCall ''xMessageBufferReceive'' [V (handle this), V buffer, V bufferLength, V ticksToWait])
       (\<lambda>r. ret r)"
  "MessageBufferBase_receiveFromISR K this higherPriorityTaskWoken buffer bufferLength =
     forward K (KCall ''xMessageBufferReceiveFromISR'' [V (handle this), V buffer, V bufferLength, Addr ''taskWoken'' (Some pdFALSE)])
       (\<lambda>r. (ret r, higherPriorityTaskWoken \<or> woken_out r = Some pdTRUE))"
  "MessageBufferBase_receiveFromISR_NULL K this buffer bufferLength =
     forward K (KCall ''xMessageBufferReceiveFromISR'' [V (handle this), V buffer, V bufferLength, V NULL])
       (\<lambda>r. ret r)"
  "MessageBufferBase_spacesAvailable K this =
     forward K (KCall ''xMessageBufferSpacesAvailable'' [V (handle this)])
       (\<lambda>r. ret r)"
  "MessageBufferBase_reset K this =
     forward K (KCall ''xMessageBufferReset'' [V (handle this)])
       (\<lambda>r. ret r = pdPASS)"
  "MessageBufferBase_isEmpty K this =
     forward K (KCall ''xMessageBufferIsEmpty'' [V (handle this)])
       (\<lambda>r. ret r = pdTRUE)"
  "MessageBufferBase_isFull K this =
     forward K (KCall ''xMessageBufferIsFull'' [V (handle this)])
       (\<lambda>r. ret r = pdTRUE)"
  "MessageBufferBase_dtor K this =
     forward K (KCall ''vMessageBufferDelete'' [V (handle this)])
       (\<lambda>r. ())"
  by (rule ext, auto simp add: method_defs call_eq forward_def Let_def stored_def truth_values split: option.splits)+

lemma QueueBase_read_forward:
  "QueueBase_receive K this buffer ticksToWait =
     forward K (KCall ''xQueueReceive'' [V (handle this), AddrBuffer, V ticksToWait])
       (\<lambda>r. if ret r = pdTRUE then Some (stored buffer (item_out r)) else None)"
  "QueueBase_receiveFromISR K this buffer higherPriorityTaskWoken =
     forward K (KCall ''xQueueReceiveFromISR''
                 [V (handle this), AddrBuffer, Addr ''taskWoken'' (Some pdFALSE)])
       (\<lambda>r. (if ret r = pdTRUE then Some (stored buffer (item_out r)) else None,
             higherPriorityTaskWoken \<or> woken_out r = Some pdTRUE))"
  "QueueBase_receiveFromISR_NULL K this buffer =
     forward K (KCall ''xQueueReceiveFromISR'' [V (handle this), AddrBuffer, V NULL])
       (\<lambda>r. if ret r = pdTRUE then Some (stored buffer (item_out r)) else None)"
  "QueueBase_peek K this buffer ticksToWait =
     forward K (KCall ''xQueuePeek'' [V (handle this), AddrBuffer, V ticksToWait])
       (\<lambda>r. if ret r = pdTRUE then Some (stored buffer (item_out r)) else None)"
  "QueueBase_peekFromISR K this buffer =
     forward K (KCall ''xQueuePeekFromISR'' [V (handle this), AddrBuffer])
       (\<lambda>r. if ret r = pdTRUE then Some (stored buffer (item_out r)) else None)"
  "QueueBase_overwriteFromISR K this higherPriorityTaskWoken item =
     forward K (KCall ''xQueueOverwriteFromISR''
                 [V (handle this), AddrItem item, Addr ''taskWoken'' (Some pdFALSE)])
       (\<lambda>r. ((), higherPriorityTaskWoken \<or> woken_out r = Some pdTRUE))"
  by (rule ext, auto simp add: method_defs call_eq forward_def Let_def stored_def truth_values split: option.splits)+

lemma TaskBase_query_forward:
  "TaskBase_notifyAndQuery K this pulNotificationValue action value index =
     forward K (KCall ''xTaskNotifyAndQueryIndexed''
                 [V (handle this), V index, V (to_ulong value), V action,
                  Addr ''pulNotificationValue'' None])
       (\<lambda>r. (ret r = pdPASS, NotificationBits (stored pulNotificationValue (value_out r))))"
  "TaskBase_notifyAndQueryFromISR K this pulNotificationValue higherPriorityTaskWoken action value index =
     forward K (KCall ''xTaskNotifyAndQueryIndexedFromISR''
                 [V (handle this), V index, V (to_ulong value), V action,
                  Addr ''pulNotificationValue'' None, Addr ''taskWoken'' (Some pdFALSE)])
       (\<lambda>r. ((ret r = pdPASS, NotificationBits (stored pulNotificationValue (value_out r))),
             higherPriorityTaskWoken \<or> woken_out r = Some pdTRUE))"
  "TaskBase_notifyAndQueryFromISR_NULL K this pulNotificationValue action value index =
     forward K (KCall ''xTaskNotifyAndQueryIndexedFromISR''
                 [V (handle this), V index, V (to_ulong value), V action,
                  Addr ''pulNotificationValue'' None, V NULL])
       (\<lambda>r. (ret r = pdPASS, NotificationBits (stored pulNotificationValue (value_out r))))"
  "TaskBase_notifyWait K pulNotificationValue ticksToWait bitsToClearOnEntry bitsToClearOnExit index =
     forward K (KCall ''xTaskNotifyWaitIndexed''
                 [V index, V (to_ulong bitsToClearOnEntry), V (to_ulong bitsToClearOnExit),
                  Addr ''pulNotificationValue'' None, V ticksToWait])
       (\<lambda>r. (ret r = pdTRUE, NotificationBits (stored pulNotificationValue (value_out r))))"
  by (rule ext, auto simp add: method_defs call_eq forward_def Let_def stored_def truth_values split: option.splits)+

lemma TaskBase_delayUntil_forward:
  "TaskBase_delayUntil K this timeIncrement =
     forward K (KCall ''xTaskDelayUntil''
                 [Addr ''previousWakeTime'' (Some (previousWakeTime this)), V timeIncrement])
       (\<lambda>r. (ret r = pdTRUE,
             this\<lparr>previousWakeTime := stored (previousWakeTime this) (value_out r)\<rparr>))"
  by (rule ext) (simp add: TaskBase_delayUntil_def call_eq forward_def Let_def)



lemma TimerBase_deleteTimer_forward:
  "TimerBase_deleteTimer K this blockTime =
     forward K (KCall ''xTimerDelete'' [V (handle this), V blockTime])
       (\<lambda>r. (ret r = pdPASS, if ret r = pdPASS then this\<lparr>handle := NULL\<rparr> else this))"
  by (rule ext) (simp add: TimerBase_deleteTimer_def call_eq forward_def Let_def)

lemma TimerBase_dtor_eq:
  "TimerBase_dtor K this w =
     (if handle this \<noteq> NULL
      then forward K (KCall ''xTimerDelete'' [V (handle this), V (deleteBlockTime this)]) (\<lambda>r. ()) w
      else ((), w))"
  by (simp add: TimerBase_dtor_def TimerBase_isValid_def TimerBase_getDeleteBlockTime_def
      TimerBase_deleteTimer_forward forward_def Let_def)

lemma ctor_forward:
  "Mutex_ctor K = forward K (KCall ''xSemaphoreCreateMutex'' []) (\<lambda>r. \<lparr>handle = ret r\<rparr>)"
  "RecursiveMutex_ctor K =
     forward K (KCall ''xSemaphoreCreateRecursiveMutex'' []) (\<lambda>r. \<lparr>handle = ret r\<rparr>)"
  "EventGroup_ctor K = forward K (KCall ''xEventGroupCreate'' []) (\<lambda>r. \<lparr>handle = ret r\<rparr>)"
  "BinarySemaphore_ctor K = forward K (KCall ''xSemaphoreCreateBinary'' []) (\<lambda>r. \<lparr>handle = ret r\<rparr>)"
  "CountingSemaphore_ctor K maxCount initialCount =
     forward K (KCall ''xSemaphoreCreateCounting'' [V maxCount, V initialCount])
       (\<lambda>r. \<lparr>handle = ret r\<rparr>)"
  "Queue_ctor K sizeof_T length' =
     forward K (KCall ''xQueueCreate'' [V length', V (of_nat sizeof_T)]) (\<lambda>r. \<lparr>handle = ret r\<rparr>)"
  "Task_ctor K addr priority stackDepth name =
     forward K (KCall ''xTaskCreate''
                 [Fn ''callTaskFunction'', Name name, V stackDepth, This addr, V priority,
                  Addr ''handle'' (Some NULL)])
       (\<lambda>r. \<lparr>handle = stored NULL (value_out r), previousWakeTime = 0,
               taskCreatedSuccessfully = (ret r = pdPASS)\<rparr>)"
  "Timer_ctor K addr period autoReload name deleteBlockTime' =
     forward K (KCall ''xTimerCreate''
                 [Name name, V period, V (if autoReload then pdTRUE else pdFALSE), This addr,
                  Fn ''callTimerFunction''])
       (\<lambda>r. \<lparr>handle = ret r, deleteBlockTime = deleteBlockTime'\<rparr>)"
  "StreamBuffer_ctor K size' triggerLevel =
     forward K (KCall ''xStreamBufferCreate'' [V size', V triggerLevel]) (\<lambda>r. \<lparr>handle = ret r\<rparr>)"
  "MessageBuffer_ctor K size' =
     forward K (KCall ''xMessageBufferCreate'' [V size']) (\<lambda>r. \<lparr>handle = ret r\<rparr>)"
  by (rule ext, simp add: method_defs call_eq forward_def Let_def)+

lemma static_ctor_forward:
  "StaticMutex_ctor K addr =
     forward K (KCall ''xSemaphoreCreateMutexStatic'' [Member addr ''staticMutex''])
       (\<lambda>r. \<lparr>handle = ret r\<rparr>)"
  "StaticRecursiveMutex_ctor K addr =
     forward K (KCall ''xSemaphoreCreateRecursiveMutexStatic'' [Member addr ''staticRecursiveMutex''])
       (\<lambda>r. \<lparr>handle = ret r\<rparr>)"
  "StaticEventGroup_ctor K addr =
     forward K (KCall ''xEventGroupCreateStatic'' [Member addr ''staticEventGroup''])
       (\<lambda>r. \<lparr>handle = ret r\<rparr>)"
  "StaticBinarySemaphore_ctor K addr =
     forward K (KCall ''xSemaphoreCreateBinaryStatic'' [Member addr ''staticBinarySemaphore''])
       (\<lambda>r. \<lparr>handle = ret r\<rparr>)"
  "StaticCountingSemaphore_ctor K addr maxCount initialCount =
     forward K (KCall ''xSemaphoreCreateCountingStatic''
                 [V maxCount, V initialCount, Member addr ''staticCountingSemaphore''])
       (\<lambda>r. \<lparr>handle = ret r\<rparr>)"
  "StaticQueue_ctor K sizeof_T N addr =
     forward K (KCall ''xQueueCreateStatic''
                 [V (of_nat N), V (of_nat sizeof_T), Member addr ''storage'',
                  Member addr ''staticQueue''])
       (\<lambda>r. \<lparr>handle = ret r\<rparr>)"
  "StaticTask_ctor K N addr priority name =
     forward K (KCall ''xTaskCreateStatic''
                 [Fn ''callTaskFunction'', Name name, V (of_nat N), This addr, V priority,
                  Member addr ''stack'', Member addr ''taskBuffer''])
       (\<lambda>r. \<lparr>handle = ret r, previousWakeTime = 0\<rparr>)"
  "StaticTimer_ctor K addr period autoReload name deleteBlockTime' =
     forward K (KCall ''xTimerCreateStatic''
                 [Name name, V period, V (if autoReload then pdTRUE else pdFALSE), This addr,
                  Fn ''callTimerFunction'', Member addr ''staticTimer''])
       (\<lambda>r. \<lparr>handle = ret r, deleteBlockTime = deleteBlockTime'\<rparr>)"
  "StaticStreamBuffer_ctor K N addr triggerLevel =
     forward K (KCall ''xStreamBufferCreateStatic''
                 [V (of_nat N), V triggerLevel, Member addr ''storage'',
                  Member addr ''staticStreamBuffer''])
       (\<lambda>r. \<lparr>handle = ret r\<rparr>)"
  "StaticMessageBuffer_ctor K N addr =
     forward K (KCall ''xMessageBufferCreateStatic''
                 [V (of_nat N), Member addr ''storage'', Member addr ''staticMessageBuffer''])
       (\<lambda>r. \<lparr>handle = ret r\<rparr>)"
  by (rule ext, simp add: method_defs call_eq forward_def Let_def)+




lemma forward_calls: "calls w (snd (forward K c f w)) = [(c, resp K c w)]"
  by (simp add: forward_def calls_after)

lemma forward_fst: "fst (forward K c f w) = f (resp K c w)"
  by (simp add: forward_def)

lemma forward_snd: "snd (forward K c f w) = after K c w"
  by (simp add: forward_def)

section \<open>Destructors\<close>

lemma MutexBase_dtor_calls:
  "map fst (calls w (snd (MutexBase_dtor K this w))) = [KCall ''vSemaphoreDelete'' [V (handle this)]]"
  by (simp add: MutexBase_dtor_def call_eq calls_after)

lemma SemaphoreBase_dtor_calls:
  "map fst (calls w (snd (SemaphoreBase_dtor K this w))) = [KCall ''vSemaphoreDelete'' [V (handle this)]]"
  by (simp add: SemaphoreBase_dtor_def call_eq calls_after)

lemma EventGroupBase_dtor_calls:
  "map fst (calls w (snd (EventGroupBase_dtor K this w))) = [KCall ''vEventGroupDelete'' [V (handle this)]]"
  by (simp add: EventGroupBase_dtor_def call_eq calls_after)

lemma QueueBase_dtor_calls:
  "map fst (calls w (snd (QueueBase_dtor K this w))) = [KCall ''vQueueDelete'' [V (handle this)]]"
  by (simp add: QueueBase_dtor_def call_eq calls_after)

lemma StreamBufferBase_dtor_calls:
  "map fst (calls w (snd (StreamBufferBase_dtor K this w))) = [KCall ''vStreamBufferDelete'' [V (handle this)]]"
  by (simp add: StreamBufferBase_dtor_def call_eq calls_after)

lemma MessageBufferBase_dtor_calls:
  "map fst (calls w (snd (MessageBufferBase_dtor K this w))) = [KCall ''vMessageBufferDelete'' [V (handle this)]]"
  by (simp add: MessageBufferBase_dtor_def call_eq calls_after)

lemma TaskBase_dtor_calls:
  "map fst (calls w (snd (TaskBase_dtor K inc this w))) =
     (if inc \<and> handle this \<noteq> NULL then [KCall ''vTaskDelete'' [V (handle this)]] else [])"
  by (simp add: TaskBase_dtor_def call_eq calls_after calls_none)

lemma TimerBase_dtor_calls:
  "map fst (calls w (snd (TimerBase_dtor K this w))) =
     (if handle this \<noteq> NULL then [KCall ''xTimerDelete'' [V (handle this), V (deleteBlockTime this)]]
      else [])"
  by (simp add: TimerBase_dtor_def TimerBase_isValid_def TimerBase_getDeleteBlockTime_def
      TimerBase_deleteTimer_def call_eq calls_after calls_none split: prod.splits)

text \<open>
  C9, as the specification states it, fails on the code in its last clause: not every
  handle-based wrapper other than a task passes \<^verbatim>\<open>NULL\<close> to the delete function when its
  creation failed. \<^verbatim>\<open>~TimerBase\<close> tests \<^verbatim>\<open>isValid()\<close> first, so a timer whose \<^verbatim>\<open>xTimerCreate\<close>
  answered \<^verbatim>\<open>NULL\<close> is destroyed without any kernel call.
\<close>

theorem failed_timer_destroyed_without_delete:
  "calls (snd (Timer_ctor replay 64 100 False ''demo'' 0 (start [silent :: nat kresp])))
     (snd (TimerBase_dtor replay
            (fst (Timer_ctor replay 64 100 False ''demo'' 0 (start [silent :: nat kresp])))
            (snd (Timer_ctor replay 64 100 False ''demo'' 0 (start [silent :: nat kresp]))))) = []"
  by (simp add: ctor_forward forward_def TimerBase_dtor_eq replay_resp silent_def answers_def NULL_def
      calls_none)

text \<open>
  C9, amended. The destructors of \<^verbatim>\<open>MutexBase\<close>, \<^verbatim>\<open>SemaphoreBase\<close> and \<^verbatim>\<open>EventGroupBase\<close>, and
  likewise those of \<^verbatim>\<open>QueueBase\<close>, \<^verbatim>\<open>StreamBufferBase\<close> and \<^verbatim>\<open>MessageBufferBase\<close>, call the
  kernel's delete function on the stored handle whatever it is: a mutex, semaphore or event
  group whose create call answered \<^verbatim>\<open>NULL\<close> passes \<^verbatim>\<open>NULL\<close> to \<^verbatim>\<open>vSemaphoreDelete\<close> or
  \<^verbatim>\<open>vEventGroupDelete\<close> when it is destroyed. \<^verbatim>\<open>~TaskBase\<close> calls \<^verbatim>\<open>vTaskDelete\<close> only when the
  handle is not \<^verbatim>\<open>NULL\<close>, so a task whose creation stored no handle makes no kernel call when
  destroyed, and \<^verbatim>\<open>~TimerBase\<close> calls \<^verbatim>\<open>xTimerDelete\<close> only when the handle is not \<^verbatim>\<open>NULL\<close>.
\<close>

theorem destructors_delete_unguarded_except_task_and_timer:
  "map fst (calls w (snd (MutexBase_dtor K this w))) = [KCall ''vSemaphoreDelete'' [V (handle this)]]
   \<and> map fst (calls w (snd (SemaphoreBase_dtor K this w))) = [KCall ''vSemaphoreDelete'' [V (handle this)]]
   \<and> map fst (calls w (snd (EventGroupBase_dtor K this w))) = [KCall ''vEventGroupDelete'' [V (handle this)]]
   \<and> map fst (calls w (snd (QueueBase_dtor K this w))) = [KCall ''vQueueDelete'' [V (handle this)]]
   \<and> map fst (calls w (snd (StreamBufferBase_dtor K this w))) =
       [KCall ''vStreamBufferDelete'' [V (handle this)]]
   \<and> map fst (calls w (snd (MessageBufferBase_dtor K this w))) =
       [KCall ''vMessageBufferDelete'' [V (handle this)]]
   \<and> map fst (calls w (snd (TaskBase_dtor K inc task w))) =
       (if inc \<and> handle task \<noteq> NULL then [KCall ''vTaskDelete'' [V (handle task)]] else [])
   \<and> map fst (calls w (snd (TimerBase_dtor K timer w))) =
       (if handle timer \<noteq> NULL
        then [KCall ''xTimerDelete'' [V (handle timer), V (deleteBlockTime timer)]] else [])
   \<and> (ret (resp K (KCall ''xSemaphoreCreateMutex'' []) w) = NULL \<longrightarrow>
        (let (m, w') = Mutex_ctor K w
         in map fst (calls w' (snd (MutexBase_dtor K m w')))) = [KCall ''vSemaphoreDelete'' [V NULL]])
   \<and> (ret (resp K (KCall ''xSemaphoreCreateBinary'' []) w) = NULL \<longrightarrow>
        (let (b, w') = BinarySemaphore_ctor K w
         in map fst (calls w' (snd (SemaphoreBase_dtor K b w')))) = [KCall ''vSemaphoreDelete'' [V NULL]])
   \<and> (ret (resp K (KCall ''xEventGroupCreate'' []) w) = NULL \<longrightarrow>
        (let (e, w') = EventGroup_ctor K w
         in map fst (calls w' (snd (EventGroupBase_dtor K e w')))) = [KCall ''vEventGroupDelete'' [V NULL]])
   \<and> (value_out (resp K (KCall ''xTaskCreate''
          [Fn ''callTaskFunction'', Name name, V depth, This addr, V priority,
           Addr ''handle'' (Some NULL)]) w) = None \<longrightarrow>
        (let (t, w') = Task_ctor K addr priority depth name w
         in map fst (calls w' (snd (TaskBase_dtor K inc t w')))) = [])"
  by (simp add: MutexBase_dtor_calls SemaphoreBase_dtor_calls EventGroupBase_dtor_calls
      QueueBase_dtor_calls StreamBufferBase_dtor_calls MessageBufferBase_dtor_calls
      TaskBase_dtor_calls TimerBase_dtor_calls Mutex_ctor_def BinarySemaphore_ctor_def
      EventGroup_ctor_def Task_ctor_def MutexBase_ctor_def SemaphoreBase_ctor_def
      EventGroupBase_ctor_def call_eq truth_values)

theorem destructors_delete_unguarded_except_task_and_timer_witness:
  "ret (resp replay (KCall ''xSemaphoreCreateMutex'' []) (start [silent :: nat kresp])) = NULL
   \<and> ret (resp replay (KCall ''xSemaphoreCreateBinary'' []) (start [silent :: nat kresp])) = NULL
   \<and> ret (resp replay (KCall ''xEventGroupCreate'' []) (start [silent :: nat kresp])) = NULL
   \<and> value_out (resp replay (KCall ''xTaskCreate''
          [Fn ''callTaskFunction'', Name ''demo'', V 128, This 64, V 1,
           Addr ''handle'' (Some NULL)]) (start [silent :: nat kresp])) = None
   \<and> (let (m, w') = Mutex_ctor replay (start [silent :: nat kresp])
      in map fst (calls w' (snd (MutexBase_dtor replay m w')))) = [KCall ''vSemaphoreDelete'' [V NULL]]
   \<and> (let (b, w') = BinarySemaphore_ctor replay (start [silent :: nat kresp])
      in map fst (calls w' (snd (SemaphoreBase_dtor replay b w')))) = [KCall ''vSemaphoreDelete'' [V NULL]]
   \<and> (let (e, w') = EventGroup_ctor replay (start [silent :: nat kresp])
      in map fst (calls w' (snd (EventGroupBase_dtor replay e w')))) = [KCall ''vEventGroupDelete'' [V NULL]]
   \<and> (let (t, w') = Task_ctor replay 64 1 128 ''demo'' (start [silent :: nat kresp])
      in map fst (calls w' (snd (TaskBase_dtor replay True t w')))) = []"
proof -
  let ?w = "start [silent :: nat kresp]"
  have h: "ret (resp replay (KCall ''xSemaphoreCreateMutex'' []) ?w) = NULL"
    "ret (resp replay (KCall ''xSemaphoreCreateBinary'' []) ?w) = NULL"
    "ret (resp replay (KCall ''xEventGroupCreate'' []) ?w) = NULL"
    "value_out (resp replay (KCall ''xTaskCreate''
          [Fn ''callTaskFunction'', Name ''demo'', V 128, This 64, V 1,
           Addr ''handle'' (Some NULL)]) ?w) = None"
    by (simp_all add: replay_resp silent_def answers_def NULL_def)
  note t = destructors_delete_unguarded_except_task_and_timer
    [where w = ?w and K = replay and this = MutexBase_ctor and inc = True
       and task = "\<lparr>handle = NULL, previousWakeTime = 0\<rparr>"
       and timer = "\<lparr>handle = NULL, deleteBlockTime = 0\<rparr>"
       and name = "''demo''" and depth = 128 and addr = 64 and priority = 1]
  from t h show ?thesis by simp
qed

section \<open>Queue reads\<close>


section \<open>The wake time of a task\<close>



section \<open>The flag of the interrupt-side methods\<close>

lemma isr_step_eq:
  "\<exists>c'. isr_step K c flag w = (flag \<or> woken_out (resp K c' w) = Some pdTRUE, after K c' w)"
  by (cases c;
      simp add: MutexBase_forward EventGroupBase_forward SemaphoreBase_forward
      QueueBase_forward QueueBase_read_forward TaskBase_forward TaskBase_query_forward
      TimerBase_forward StreamBufferBase_forward MessageBufferBase_forward forward_def;
      blast)

lemma isr_run_trace:
  "\<exists>es. trace (snd (isr_run K cs flag w)) = trace w @ es \<and> length es = length cs
        \<and> fst (isr_run K cs flag w) = (flag \<or> (\<exists>e\<in>set es. woken_out (snd e) = Some pdTRUE))"
proof (induction cs arbitrary: flag w)
  case Nil
  then show ?case by simp
next
  case (Cons c cs)
  obtain c' where step:
    "isr_step K c flag w = (flag \<or> woken_out (resp K c' w) = Some pdTRUE, after K c' w)"
    using isr_step_eq by blast
  let ?flag = "flag \<or> woken_out (resp K c' w) = Some pdTRUE"
  from Cons.IH [of ?flag "after K c' w"] obtain es where es:
    "trace (snd (isr_run K cs ?flag (after K c' w))) = trace (after K c' w) @ es"
    "length es = length cs"
    "fst (isr_run K cs ?flag (after K c' w)) = (?flag \<or> (\<exists>e\<in>set es. woken_out (snd e) = Some pdTRUE))"
    by blast
  show ?case
    using es by (intro exI [of _ "(c', resp K c' w) # es"]) (auto simp add: step trace_after)
qed

text \<open>
  C8. A method that takes \<^verbatim>\<open>bool& higherPriorityTaskWoken\<close> makes one kernel call and leaves
  the flag true when it was true or when the kernel stored \<^verbatim>\<open>pdTRUE\<close> through
  \<^verbatim>\<open>pxHigherPriorityTaskWoken\<close>, and unchanged otherwise; it never clears it. Over any sequence
  of such calls sharing one flag, the flag ends true exactly when it started true or the kernel
  stored \<^verbatim>\<open>pdTRUE\<close> in one of the calls.
\<close>

theorem woken_flag_is_sticky:
  "(\<exists>c'. isr_step K c flag w = (flag \<or> woken_out (resp K c' w) = Some pdTRUE, after K c' w))
   \<and> fst (isr_run K cs flag w) =
       (flag \<or> (\<exists>e\<in>set (calls w (snd (isr_run K cs flag w))). woken_out (snd e) = Some pdTRUE))
   \<and> length (calls w (snd (isr_run K cs flag w))) = length cs
   \<and> (flag \<longrightarrow> fst (isr_run K cs flag w))"
proof -
  obtain es where es: "trace (snd (isr_run K cs flag w)) = trace w @ es" "length es = length cs"
    "fst (isr_run K cs flag w) = (flag \<or> (\<exists>e\<in>set es. woken_out (snd e) = Some pdTRUE))"
    using isr_run_trace by blast
  have "calls w (snd (isr_run K cs flag w)) = es"
    using es(1) by (simp add: calls_def)
  moreover have "flag \<longrightarrow> fst (isr_run K cs flag w)"
    using es(3) by blast
  ultimately show ?thesis
    using es(2,3) isr_step_eq [of K c flag w] by blast
qed


lemma replay_after: "after replay c (start (r # rs)) = \<lparr>kstate = rs, trace = [(c, r)]\<rparr>"
  by (simp add: after_def resp_def replay_def start_def)

lemma replay_resp_world: "resp replay c \<lparr>kstate = r # rs, trace = tr\<rparr> = r"
  "after replay c \<lparr>kstate = r # rs, trace = tr\<rparr> = \<lparr>kstate = rs, trace = tr @ [(c, r)]\<rparr>"
  by (simp_all add: after_def resp_def replay_def)

theorem woken_flag_is_sticky_witness:
  "fst (isr_run replay
          [Semaphore_giveFromISR \<lparr>handle = 1\<rparr>, Queue_sendToBackFromISR \<lparr>handle = 2\<rparr> (5::nat),
           Timer_startFromISR \<lparr>handle = 3, deleteBlockTime = 0\<rparr>]
          True
          (start [silent, silent\<lparr>ret := pdPASS\<rparr>, silent]))
   \<and> fst (isr_run replay
          [Semaphore_giveFromISR \<lparr>handle = 1\<rparr>, Queue_sendToBackFromISR \<lparr>handle = 2\<rparr> (5::nat),
           Timer_startFromISR \<lparr>handle = 3, deleteBlockTime = 0\<rparr>]
          False
          (start [silent, silent\<lparr>ret := pdPASS, woken_out := Some pdTRUE\<rparr>, silent]))
   \<and> \<not> fst (isr_run replay
          [Semaphore_giveFromISR \<lparr>handle = 1\<rparr>, Queue_sendToBackFromISR \<lparr>handle = 2\<rparr> (5::nat),
           Timer_startFromISR \<lparr>handle = 3, deleteBlockTime = 0\<rparr>]
          False
          (start [silent, silent\<lparr>ret := pdPASS, woken_out := Some pdFALSE\<rparr>, silent]))"
proof -
  let ?cs = "[Semaphore_giveFromISR \<lparr>handle = 1\<rparr>, Queue_sendToBackFromISR \<lparr>handle = 2\<rparr> (5::nat),
           Timer_startFromISR \<lparr>handle = 3, deleteBlockTime = 0\<rparr>]"
  have run: "calls (start [r1, r2, r3]) (snd (isr_run replay ?cs False (start [r1, r2, r3]))) =
     [(KCall ''xSemaphoreGiveFromISR'' [V 1, Addr ''taskWoken'' (Some pdFALSE)], r1),
      (KCall ''xQueueSendToBackFromISR'' [V 2, AddrItem 5, Addr ''taskWoken'' (Some pdFALSE)], r2),
      (KCall ''xTimerStartFromISR'' [V 3, Addr ''taskWoken'' (Some pdFALSE)], r3)]" for r1 r2 r3
    by (simp add: SemaphoreBase_forward QueueBase_forward TimerBase_forward forward_def
        replay_resp replay_after replay_resp_world calls_def start_def)
  note mono = woken_flag_is_sticky [of replay "Semaphore_giveFromISR \<lparr>handle = 1\<rparr>" True
                "start [silent, silent\<lparr>ret := pdPASS\<rparr>, silent]" ?cs,
                THEN conjunct2, THEN conjunct2, THEN conjunct2]
  note woke = woken_flag_is_sticky [of replay "Semaphore_giveFromISR \<lparr>handle = 1\<rparr>" False
                "start [silent, silent\<lparr>ret := pdPASS, woken_out := Some pdTRUE\<rparr>, silent]" ?cs,
                THEN conjunct2, THEN conjunct1]
  note slept = woken_flag_is_sticky [of replay "Semaphore_giveFromISR \<lparr>handle = 1\<rparr>" False
                "start [silent, silent\<lparr>ret := pdPASS, woken_out := Some pdFALSE\<rparr>, silent]" ?cs,
                THEN conjunct2, THEN conjunct1]
  have a: "fst (isr_run replay ?cs True (start [silent, silent\<lparr>ret := pdPASS\<rparr>, silent]))"
    using mono by blast
  have b: "fst (isr_run replay ?cs False
             (start [silent, silent\<lparr>ret := pdPASS, woken_out := Some pdTRUE\<rparr>, silent]))"
    unfolding woke run by (simp add: silent_def answers_def)
  have c: "\<not> fst (isr_run replay ?cs False
             (start [silent, silent\<lparr>ret := pdPASS, woken_out := Some pdFALSE\<rparr>, silent]))"
    unfolding slept run by (simp add: silent_def answers_def truth_values)
  from a b c show ?thesis by blast
qed

section \<open>Construction and destruction\<close>



section \<open>Validity\<close>





section \<open>Static allocation\<close>

lemma own_storage_simps:
  "own_storage cls addr (KCall f as) =
     (f = create_static cls \<and> f \<notin> set create_dynamic
      \<and> set (member_args as) = set (map (\<lambda>m. (addr, fst m)) (data_members cls)))"
  by (simp add: own_storage_def)

text \<open>
  C7. The constructor of every statically allocated variant makes one kernel call, to the
  static create function of its class, and the storage it passes is the object's own: the
  pointers it hands over are the addresses of exactly the data members the class declares
  (\<^verbatim>\<open>StaticQueue_t staticQueue\<close> and \<^verbatim>\<open>uint8_t storage[N * sizeof(T)]\<close> for \<^verbatim>\<open>StaticQueue<T, N>\<close>,
  \<^verbatim>\<open>StaticSemaphore_t staticMutex\<close> for \<^verbatim>\<open>StaticMutex\<close>, and so on). It calls none of the create
  functions that take storage from the kernel heap.
\<close>

theorem static_variants_use_own_members:
  "(let c = KCall ''xTaskCreateStatic''
              [Fn ''callTaskFunction'', Name name, V (of_nat N), This addr, V priority,
               Member addr ''stack'', Member addr ''taskBuffer'']
    in StaticTask_ctor K N addr priority name =
         forward K c (\<lambda>r. \<lparr>handle = ret r, previousWakeTime = 0\<rparr>)
       \<and> own_storage (StaticTask N) addr c)
   \<and> (let c = KCall ''xQueueCreateStatic''
              [V (of_nat N), V (of_nat sizeof_T), Member addr ''storage'', Member addr ''staticQueue'']
    in StaticQueue_ctor K sizeof_T N addr = forward K c (\<lambda>r. \<lparr>handle = ret r\<rparr>)
       \<and> own_storage (StaticQueue sizeof_T N) addr c)
   \<and> (let c = KCall ''xTimerCreateStatic''
              [Name name, V period, V (if autoReload then pdTRUE else pdFALSE), This addr,
               Fn ''callTimerFunction'', Member addr ''staticTimer'']
    in StaticTimer_ctor K addr period autoReload name deleteBlockTime' =
         forward K c (\<lambda>r. \<lparr>handle = ret r, deleteBlockTime = deleteBlockTime'\<rparr>)
       \<and> own_storage StaticTimer addr c)
   \<and> (let c = KCall ''xSemaphoreCreateMutexStatic'' [Member addr ''staticMutex'']
    in StaticMutex_ctor K addr = forward K c (\<lambda>r. \<lparr>handle = ret r\<rparr>)
       \<and> own_storage StaticMutex addr c)
   \<and> (let c = KCall ''xSemaphoreCreateRecursiveMutexStatic'' [Member addr ''staticRecursiveMutex'']
    in StaticRecursiveMutex_ctor K addr = forward K c (\<lambda>r. \<lparr>handle = ret r\<rparr>)
       \<and> own_storage StaticRecursiveMutex addr c)
   \<and> (let c = KCall ''xEventGroupCreateStatic'' [Member addr ''staticEventGroup'']
    in StaticEventGroup_ctor K addr = forward K c (\<lambda>r. \<lparr>handle = ret r\<rparr>)
       \<and> own_storage StaticEventGroup addr c)
   \<and> (let c = KCall ''xSemaphoreCreateBinaryStatic'' [Member addr ''staticBinarySemaphore'']
    in StaticBinarySemaphore_ctor K addr = forward K c (\<lambda>r. \<lparr>handle = ret r\<rparr>)
       \<and> own_storage StaticBinarySemaphore addr c)
   \<and> (let c = KCall ''xSemaphoreCreateCountingStatic''
              [V maxCount, V initialCount, Member addr ''staticCountingSemaphore'']
    in StaticCountingSemaphore_ctor K addr maxCount initialCount =
         forward K c (\<lambda>r. \<lparr>handle = ret r\<rparr>)
       \<and> own_storage StaticCountingSemaphore addr c)
   \<and> (let c = KCall ''xStreamBufferCreateStatic''
              [V (of_nat N), V triggerLevel, Member addr ''storage'',
               Member addr ''staticStreamBuffer'']
    in StaticStreamBuffer_ctor K N addr triggerLevel = forward K c (\<lambda>r. \<lparr>handle = ret r\<rparr>)
       \<and> own_storage (StaticStreamBuffer N) addr c)
   \<and> (let c = KCall ''xMessageBufferCreateStatic''
              [V (of_nat N), Member addr ''storage'', Member addr ''staticMessageBuffer'']
    in StaticMessageBuffer_ctor K N addr = forward K c (\<lambda>r. \<lparr>handle = ret r\<rparr>)
       \<and> own_storage (StaticMessageBuffer N) addr c)"
  unfolding Let_def own_storage_simps static_ctor_forward
  by (auto simp add: create_dynamic_def)



section \<open>The methods as forwarding calls\<close>



section \<open>Return codes as booleans\<close>

text \<open>
  C2, as the specification states it, fails on the code: \<^verbatim>\<open>TimerBase::isActive\<close> tests the
  kernel's return value against \<^verbatim>\<open>pdFALSE\<close>, so it returns true when \<^verbatim>\<open>xTimerIsTimerActive\<close>
  returns 2, which is not \<^verbatim>\<open>pdTRUE\<close>.
\<close>

theorem isActive_true_on_value_other_than_pdTRUE:
  "fst (TimerBase_isActive replay \<lparr>handle = 1, deleteBlockTime = 0\<rparr>
          (start [answers 2 :: nat kresp]))
   \<and> ret (resp replay (KCall ''xTimerIsTimerActive'' [V 1])
          (start [answers 2 :: nat kresp])) \<noteq> pdTRUE"
  by (simp add: TimerBase_forward forward_def replay_resp silent_def answers_def pdFALSE_def pdTRUE_def)

text \<open>
  C2, amended. Every method that returns \<^verbatim>\<open>bool\<close> from a kernel call, other than
  \<^verbatim>\<open>TimerBase::isActive\<close>, returns true exactly when the kernel function it wraps returns the
  constant the method compares with, \<^verbatim>\<open>pdTRUE\<close> or \<^verbatim>\<open>pdPASS\<close> (the same value), and false for
  every other return value. \<^verbatim>\<open>isActive\<close> returns false exactly when \<^verbatim>\<open>xTimerIsTimerActive\<close>
  returns \<^verbatim>\<open>pdFALSE\<close>, and true for every other return value.
\<close>

theorem bool_methods_translate_return_code:
  "fst (MutexBase_lock K this ticksToWait w) =
       (ret (resp K (KCall ''xSemaphoreTake'' [V (handle this), V ticksToWait]) w) = pdTRUE)
   \<and> fst (fst (MutexBase_lockFromISR K this higherPriorityTaskWoken w)) =
       (ret (resp K (KCall ''xSemaphoreTakeFromISR''
              [V (handle this), Addr ''taskWoken'' (Some pdFALSE)]) w) = pdTRUE)
   \<and> fst (MutexBase_lockFromISR_NULL K this w) =
       (ret (resp K (KCall ''xSemaphoreTakeFromISR'' [V (handle this), V NULL]) w) = pdTRUE)
   \<and> fst (MutexBase_unlock K this w) =
       (ret (resp K (KCall ''xSemaphoreGive'' [V (handle this)]) w) = pdTRUE)
   \<and> fst (RecursiveMutexBase_lock K this ticksToWait w) =
       (ret (resp K (KCall ''xSemaphoreTakeRecursive'' [V (handle this), V ticksToWait]) w) = pdTRUE)
   \<and> fst (RecursiveMutexBase_unlock K this w) =
       (ret (resp K (KCall ''xSemaphoreGiveRecursive'' [V (handle this)]) w) = pdTRUE)
   \<and> fst (fst (EventGroupBase_setFromISR K this higherPriorityTaskWoken bitsToSet w)) =
       (ret (resp K (KCall ''xEventGroupSetBitsFromISR''
              [V (handle this), V (to_ulong bitsToSet), Addr ''taskWoken'' (Some pdFALSE)]) w) = pdPASS)
   \<and> fst (EventGroupBase_setFromISR_NULL K this bitsToSet w) =
       (ret (resp K (KCall ''xEventGroupSetBitsFromISR'' [V (handle this), V (to_ulong bitsToSet), V NULL]) w) = pdPASS)
   \<and> fst (EventGroupBase_clearFromISR K this bitsToClear w) =
       (ret (resp K (KCall ''xEventGroupClearBitsFromISR'' [V (handle this), V (to_ulong bitsToClear)]) w) = pdPASS)
   \<and> fst (SemaphoreBase_take K this ticksToWait w) =
       (ret (resp K (KCall ''xSemaphoreTake'' [V (handle this), V ticksToWait]) w) = pdTRUE)
   \<and> fst (fst (SemaphoreBase_takeFromISR K this higherPriorityTaskWoken w)) =
       (ret (resp K (KCall ''xSemaphoreTakeFromISR''
              [V (handle this), Addr ''taskWoken'' (Some pdFALSE)]) w) = pdTRUE)
   \<and> fst (SemaphoreBase_takeFromISR_NULL K this w) =
       (ret (resp K (KCall ''xSemaphoreTakeFromISR'' [V (handle this), V NULL]) w) = pdTRUE)
   \<and> fst (SemaphoreBase_give K this w) =
       (ret (resp K (KCall ''xSemaphoreGive'' [V (handle this)]) w) = pdTRUE)
   \<and> fst (fst (SemaphoreBase_giveFromISR K this higherPriorityTaskWoken w)) =
       (ret (resp K (KCall ''xSemaphoreGiveFromISR''
              [V (handle this), Addr ''taskWoken'' (Some pdFALSE)]) w) = pdTRUE)
   \<and> fst (SemaphoreBase_giveFromISR_NULL K this w) =
       (ret (resp K (KCall ''xSemaphoreGiveFromISR'' [V (handle this), V NULL]) w) = pdTRUE)
   \<and> fst (QueueBase_sendToBack K this item ticksToWait w) =
       (ret (resp K (KCall ''xQueueSendToBack'' [V (handle this), AddrItem item, V ticksToWait]) w) = pdTRUE)
   \<and> fst (fst (QueueBase_sendToBackFromISR K this higherPriorityTaskWoken item w)) =
       (ret (resp K (KCall ''xQueueSendToBackFromISR''
              [V (handle this), AddrItem item, Addr ''taskWoken'' (Some pdFALSE)]) w) = pdPASS)
   \<and> fst (QueueBase_sendToBackFromISR_NULL K this item w) =
       (ret (resp K (KCall ''xQueueSendToBackFromISR'' [V (handle this), AddrItem item, V NULL]) w) = pdPASS)
   \<and> fst (QueueBase_sendToFront K this item ticksToWait w) =
       (ret (resp K (KCall ''xQueueSendToFront'' [V (handle this), AddrItem item, V ticksToWait]) w) = pdTRUE)
   \<and> fst (fst (QueueBase_sendToFrontFromISR K this higherPriorityTaskWoken item w)) =
       (ret (resp K (KCall ''xQueueSendToFrontFromISR''
              [V (handle this), AddrItem item, Addr ''taskWoken'' (Some pdFALSE)]) w) = pdPASS)
   \<and> fst (QueueBase_sendToFrontFromISR_NULL K this item w) =
       (ret (resp K (KCall ''xQueueSendToFrontFromISR'' [V (handle this), AddrItem item, V NULL]) w) = pdPASS)
   \<and> fst (QueueBase_isFullFromISR K this w) =
       (ret (resp K (KCall ''xQueueIsQueueFullFromISR'' [V (handle this)]) w) = pdTRUE)
   \<and> fst (QueueBase_isEmptyFromISR K this w) =
       (ret (resp K (KCall ''xQueueIsQueueEmptyFromISR'' [V (handle this)]) w) = pdTRUE)
   \<and> fst (Kernel_resumeAll K w) =
       (ret (resp K (KCall ''xTaskResumeAll'' []) w) = pdTRUE)
   \<and> fst (Kernel_catchUpTicks K ticksToCatchUp w) =
       (ret (resp K (KCall ''xTaskCatchUpTicks'' [V ticksToCatchUp]) w) = pdTRUE)
   \<and> fst (TaskBase_resumeFromISR K task w) =
       (ret (resp K (KCall ''xTaskResumeFromISR'' [V (handle task)]) w) = pdTRUE)
   \<and> fst (TaskBase_abortDelay K task w) =
       (ret (resp K (KCall ''xTaskAbortDelay'' [V (handle task)]) w) = pdPASS)
   \<and> fst (TaskBase_notify K task action value index w) =
       (ret (resp K (KCall ''xTaskNotifyIndexed'' [V (handle task), V index, V (to_ulong value), V action]) w) = pdPASS)
   \<and> fst (fst (TaskBase_notifyFromISR K task higherPriorityTaskWoken action value index w)) =
       (ret (resp K (KCall ''xTaskNotifyIndexedFromISR''
              [V (handle task), V index, V (to_ulong value), V action, Addr ''taskWoken'' (Some pdFALSE)]) w) = pdPASS)
   \<and> fst (TaskBase_notifyFromISR_NULL K task action value index w) =
       (ret (resp K (KCall ''xTaskNotifyIndexedFromISR'' [V (handle task), V index, V (to_ulong value), V action, V NULL]) w) = pdPASS)
   \<and> fst (TaskBase_notifyStateClear K task index w) =
       (ret (resp K (KCall ''xTaskNotifyStateClearIndexed'' [V (handle task), V index]) w) = pdTRUE)
   \<and> fst (TimerBase_isActive K timer w) =
       (ret (resp K (KCall ''xTimerIsTimerActive'' [V (handle timer)]) w) \<noteq> pdFALSE)
   \<and> fst (TimerBase_start K timer blockTime w) =
       (ret (resp K (KCall ''xTimerStart'' [V (handle timer), V blockTime]) w) = pdPASS)
   \<and> fst (fst (TimerBase_startFromISR K timer higherPriorityTaskWoken w)) =
       (ret (resp K (KCall ''xTimerStartFromISR''
              [V (handle timer), Addr ''taskWoken'' (Some pdFALSE)]) w) = pdPASS)
   \<and> fst (TimerBase_startFromISR_NULL K timer w) =
       (ret (resp K (KCall ''xTimerStartFromISR'' [V (handle timer), V NULL]) w) = pdPASS)
   \<and> fst (TimerBase_stop K timer blockTime w) =
       (ret (resp K (KCall ''xTimerStop'' [V (handle timer), V blockTime]) w) = pdPASS)
   \<and> fst (fst (TimerBase_stopFromISR K timer higherPriorityTaskWoken w)) =
       (ret (resp K (KCall ''xTimerStopFromISR''
              [V (handle timer), Addr ''taskWoken'' (Some pdFALSE)]) w) = pdPASS)
   \<and> fst (TimerBase_stopFromISR_NULL K timer w) =
       (ret (resp K (KCall ''xTimerStopFromISR'' [V (handle timer), V NULL]) w) = pdPASS)
   \<and> fst (TimerBase_changePeriod K timer newPeriod blockTime w) =
       (ret (resp K (KCall ''xTimerChangePeriod'' [V (handle timer), V newPeriod, V blockTime]) w) = pdPASS)
   \<and> fst (fst (TimerBase_changePeriodFromISR K timer higherPriorityTaskWoken newPeriod w)) =
       (ret (resp K (KCall ''xTimerChangePeriodFromISR''
              [V (handle timer), V newPeriod, Addr ''taskWoken'' (Some pdFALSE)]) w) = pdPASS)
   \<and> fst (TimerBase_changePeriodFromISR_NULL K timer newPeriod w) =
       (ret (resp K (KCall ''xTimerChangePeriodFromISR'' [V (handle timer), V newPeriod, V NULL]) w) = pdPASS)
   \<and> fst (TimerBase_reset K timer blockTime w) =
       (ret (resp K (KCall ''xTimerReset'' [V (handle timer), V blockTime]) w) = pdPASS)
   \<and> fst (fst (TimerBase_resetFromISR K timer higherPriorityTaskWoken w)) =
       (ret (resp K (KCall ''xTimerResetFromISR''
              [V (handle timer), Addr ''taskWoken'' (Some pdFALSE)]) w) = pdPASS)
   \<and> fst (TimerBase_resetFromISR_NULL K timer w) =
       (ret (resp K (KCall ''xTimerResetFromISR'' [V (handle timer), V NULL]) w) = pdPASS)
   \<and> fst (TimerBase_getReloadMode K timer w) =
       (ret (resp K (KCall ''uxTimerGetReloadMode'' [V (handle timer)]) w) = pdTRUE)
   \<and> fst (StreamBufferBase_setTriggerLevel K this triggerLevel w) =
       (ret (resp K (KCall ''xStreamBufferSetTriggerLevel'' [V (handle this), V triggerLevel]) w) = pdTRUE)
   \<and> fst (StreamBufferBase_reset K this w) =
       (ret (resp K (KCall ''xStreamBufferReset'' [V (handle this)]) w) = pdPASS)
   \<and> fst (StreamBufferBase_isEmpty K this w) =
       (ret (resp K (KCall ''xStreamBufferIsEmpty'' [V (handle this)]) w) = pdTRUE)
   \<and> fst (StreamBufferBase_isFull K this w) =
       (ret (resp K (KCall ''xStreamBufferIsFull'' [V (handle this)]) w) = pdTRUE)
   \<and> fst (MessageBufferBase_reset K this w) =
       (ret (resp K (KCall ''xMessageBufferReset'' [V (handle this)]) w) = pdPASS)
   \<and> fst (MessageBufferBase_isEmpty K this w) =
       (ret (resp K (KCall ''xMessageBufferIsEmpty'' [V (handle this)]) w) = pdTRUE)
   \<and> fst (MessageBufferBase_isFull K this w) =
       (ret (resp K (KCall ''xMessageBufferIsFull'' [V (handle this)]) w) = pdTRUE)
   \<and> fst (fst (TaskBase_delayUntil K task timeIncrement w)) =
       (ret (resp K (KCall ''xTaskDelayUntil''
              [Addr ''previousWakeTime'' (Some (previousWakeTime task)), V timeIncrement]) w) = pdTRUE)
   \<and> fst (fst (TimerBase_deleteTimer K timer blockTime w)) =
       (ret (resp K (KCall ''xTimerDelete'' [V (handle timer), V blockTime]) w) = pdPASS)"
  by (simp add: MutexBase_forward RecursiveMutexBase_forward EventGroupBase_forward
      SemaphoreBase_forward QueueBase_forward Kernel_forward TaskBase_forward
      TaskBase_delayUntil_forward TimerBase_forward TimerBase_deleteTimer_forward
      StreamBufferBase_forward MessageBufferBase_forward forward_def)

end
